theory Spec2Isabelle
  imports Complex_Main "HOL-Library.Sublist" "HOL-Library.Multiset" "HOL-Library.Log_Nat"
begin

section \<open>Python text operations\<close>

text \<open>
  The text of a store record is modelled as a \<open>string\<close>; each \<open>char\<close> stands for one
  code point below 256, so slicing and \<open>len\<close> count what Python counts. The text of a
  page has two more characters, the euro sign and the rupee sign, which the program
  names (see \<open>uchar\<close> below). Other code points from 256 on do not occur in a modelled
  text.
\<close>

fun startswith :: "'a list \<Rightarrow> 'a list \<Rightarrow> bool" where
  "startswith s [] = True"
| "startswith [] (p # ps) = False"
| "startswith (c # cs) (p # ps) = (c = p \<and> startswith cs ps)"

text \<open>
  \<open>is_in sub s\<close> is Python's \<open>sub in s\<close> on two strings, given as lists of characters.
\<close>

fun is_in :: "'a list \<Rightarrow> 'a list \<Rightarrow> bool" where
  "is_in sub [] = (sub = [])"
| "is_in sub (c # cs) = (startswith (c # cs) sub \<or> is_in sub cs)"

text \<open>\<open>any(word in s for word in words)\<close>.\<close>

definition any_in :: "string list \<Rightarrow> string \<Rightarrow> bool" where
  "any_in words s = list_ex (\<lambda>word. is_in word s) words"

definition lower_char :: "char \<Rightarrow> char" where
  "lower_char c =
     (let n = (of_char c :: nat)
      in if (65 \<le> n \<and> n \<le> 90) \<or> (192 \<le> n \<and> n \<le> 222 \<and> n \<noteq> 215)
         then char_of (n + 32) else c)"

definition lower :: "string \<Rightarrow> string" where
  "lower s = map lower_char s"

definition is_digit :: "char \<Rightarrow> bool" where
  "is_digit c = (c \<in> set ''0123456789'')"

text \<open>The character class \<open>[\d,]\<close>.\<close>

definition is_num_char :: "char \<Rightarrow> bool" where
  "is_num_char c = (is_digit c \<or> c = CHR '','')"

definition digit_val :: "char \<Rightarrow> nat" where
  "digit_val c = of_char c - 48"

definition digits_val :: "string \<Rightarrow> nat" where
  "digits_val s = foldl (\<lambda>a c. 10 * a + digit_val c) 0 s"

text \<open>
  \<open>re.search(r'[\d,]+', s)\<close>: the leftmost longest run of digits and commas, \<open>None\<close>
  when \<open>s\<close> has none.
\<close>

definition re_search_num :: "string \<Rightarrow> string option" where
  "re_search_num s =
     (let rest = dropWhile (\<lambda>c. \<not> is_num_char c) s
      in if rest = [] then None else Some (takeWhile is_num_char rest))"

definition is_space :: "char \<Rightarrow> bool" where
  "is_space c =
     (let n = (of_char c :: nat)
      in (9 \<le> n \<and> n \<le> 13) \<or> (28 \<le> n \<and> n \<le> 32) \<or> n = 133 \<or> n = 160)"

section \<open>Floating-point numbers\<close>

text \<open>
  A Python \<open>float\<close> is an IEEE 754 double: a rational number that the format
  represents, an infinity, or not-a-number. (The two zeros are not told apart; nothing
  the program computes depends on the sign of a zero.) Every operation yields the exact
  result rounded to the nearest double, ties to the even mantissa.
\<close>

datatype double = Fin rat | PInf | NInf | Not_a_number

text \<open>Rounding to the nearest integer, ties to even.\<close>

definition round_half_even :: "rat \<Rightarrow> int" where
  "round_half_even x =
     (let f = \<lfloor>x\<rfloor>; d = x - of_int f
      in if d < 1 / 2 then f else if 1 / 2 < d then f + 1
         else if even f then f else f + 1)"

definition pow2 :: "int \<Rightarrow> rat" where
  "pow2 k = 2 powi k"

text \<open>The binary exponent of a positive rational: \<open>2 ^ ilog2 x \<le> x < 2 ^ (ilog2 x + 1)\<close>.\<close>

definition ilog2 :: "rat \<Rightarrow> int" where
  "ilog2 x = (if 1 \<le> x then bitlen \<lfloor>x\<rfloor> - 1 else - bitlen (\<lceil>1 / x\<rceil> - 1))"

text \<open>
  The double nearest to a rational: 53 bits of mantissa, the exponent bounded below by
  that of the subnormal numbers, and an infinity from \<open>2 ^ 1024\<close> on.
\<close>

definition round_double :: "rat \<Rightarrow> double" where
  "round_double x =
     (if x = 0 then Fin 0
      else
        (let e = max (ilog2 \<bar>x\<bar>) (- 1022);
             ulp = pow2 (e - 52);
             r = of_int (round_half_even (x / ulp)) * ulp
         in if pow2 1024 \<le> \<bar>r\<bar> then (if 0 < x then PInf else NInf) else Fin r))"

definition is_double :: "double \<Rightarrow> bool" where
  "is_double x = (case x of Fin a \<Rightarrow> round_double a = Fin a | _ \<Rightarrow> True)"

fun fneg :: "double \<Rightarrow> double" where
  "fneg (Fin a) = Fin (- a)"
| "fneg PInf = NInf"
| "fneg NInf = PInf"
| "fneg Not_a_number = Not_a_number"

text \<open>\<open>abs(x)\<close>.\<close>

fun fabs :: "double \<Rightarrow> double" where
  "fabs (Fin a) = Fin \<bar>a\<bar>"
| "fabs PInf = PInf"
| "fabs NInf = PInf"
| "fabs Not_a_number = Not_a_number"

text \<open>\<open>x + y\<close> and \<open>x - y\<close>.\<close>

fun fadd :: "double \<Rightarrow> double \<Rightarrow> double" where
  "fadd (Fin a) (Fin b) = round_double (a + b)"
| "fadd Not_a_number y = Not_a_number"
| "fadd x Not_a_number = Not_a_number"
| "fadd PInf NInf = Not_a_number"
| "fadd NInf PInf = Not_a_number"
| "fadd PInf y = PInf"
| "fadd x PInf = PInf"
| "fadd NInf y = NInf"
| "fadd x NInf = NInf"

definition fsub :: "double \<Rightarrow> double \<Rightarrow> double" where
  "fsub x y = fadd x (fneg y)"

fun fsign :: "double \<Rightarrow> int" where
  "fsign (Fin a) = \<lfloor>sgn a\<rfloor>"
| "fsign PInf = 1"
| "fsign NInf = - 1"
| "fsign Not_a_number = 0"

text \<open>\<open>x * y\<close>.\<close>

definition fmul :: "double \<Rightarrow> double \<Rightarrow> double" where
  "fmul x y =
     (case (x, y) of
        (Fin a, Fin b) \<Rightarrow> round_double (a * b)
      | _ \<Rightarrow>
          if x = Not_a_number \<or> y = Not_a_number \<or> fsign x * fsign y = 0 then Not_a_number
          else if 0 < fsign x * fsign y then PInf else NInf)"

text \<open>
  \<open>x / n\<close> for a float \<open>x\<close> and an \<open>int\<close> \<open>n\<close> from 1 to \<open>2 ^ 53\<close>, which converts to
  a float exactly. The program divides by 100 and by the length of a non-empty list.
\<close>

definition fdiv_int :: "double \<Rightarrow> nat \<Rightarrow> double" where
  "fdiv_int x n = (case x of Fin a \<Rightarrow> round_double (a / of_nat n) | _ \<Rightarrow> x)"

text \<open>\<open>x < y\<close> and \<open>x <= y\<close>; a Python \<open>int\<close> compares by its exact value.\<close>

fun flt :: "double \<Rightarrow> double \<Rightarrow> bool" where
  "flt (Fin a) (Fin b) = (a < b)"
| "flt Not_a_number y = False"
| "flt x Not_a_number = False"
| "flt x NInf = False"
| "flt NInf y = True"
| "flt PInf y = False"
| "flt x PInf = True"

definition fle :: "double \<Rightarrow> double \<Rightarrow> bool" where
  "fle x y = (flt x y \<or> (x = y \<and> x \<noteq> Not_a_number))"

text \<open>
  The number that a string of digits with at most one dot denotes; \<open>None\<close> for the
  empty string, a lone dot, a second dot or any other character.
\<close>

definition decimal_value :: "string \<Rightarrow> rat option" where
  "decimal_value s =
     (let ip = takeWhile is_digit s; r = dropWhile is_digit s
      in if r = [] then (if ip = [] then None else Some (of_nat (digits_val ip)))
         else if hd r = CHR ''.'' \<and> list_all is_digit (tl r) \<and> (ip \<noteq> [] \<or> tl r \<noteq> [])
         then Some (of_nat (digits_val ip) + of_nat (digits_val (tl r)) / 10 ^ length (tl r))
         else None)"

text \<open>
  \<open>float(s)\<close> on the strings the program passes to it, which consist of digits and
  dots only: the double nearest to the decimal number; \<open>None\<close> is the \<open>ValueError\<close>.
\<close>

definition py_float :: "string \<Rightarrow> double option" where
  "py_float s = map_option round_double (decimal_value s)"

text \<open>
  \<open>round(x, 2)\<close>: the exact value of \<open>x\<close> rounded to hundredths, ties to even, and
  the double nearest to that; an infinity or not-a-number is returned as it is.
\<close>

definition round2 :: "double \<Rightarrow> double" where
  "round2 x =
     (case x of
        Fin a \<Rightarrow> round_double (of_int (round_half_even (a * 100)) / 100)
      | _ \<Rightarrow> x)"

text \<open>
  \<open>sum(xs)\<close> of floats, started from the \<open>int\<close> 0, adding from left to right. (CPython
  from 3.12 on also carries a correction term; the price statistics below are stated
  for any way of summing.)
\<close>

definition py_sum :: "double list \<Rightarrow> double" where
  "py_sum xs = fold (\<lambda>x total. fadd total x) xs (Fin 0)"

text \<open>\<open>min(xs)\<close> and \<open>max(xs)\<close> of a non-empty list: the first least or greatest item.\<close>

definition list_min :: "double list \<Rightarrow> double" where
  "list_min xs = fold (\<lambda>x m. if flt x m then x else m) (tl xs) (hd xs)"

definition list_max :: "double list \<Rightarrow> double" where
  "list_max xs = fold (\<lambda>x m. if flt m x then x else m) (tl xs) (hd xs)"

text \<open>Decimal digits of a natural number, as \<open>str(n)\<close> and the \<open>f\<close> format print them.\<close>

definition digit_char :: "nat \<Rightarrow> char" where
  "digit_char d = ''0123456789'' ! d"

fun show_nat :: "nat \<Rightarrow> string" where
  "show_nat n = (if n < 10 then [digit_char n] else show_nat (n div 10) @ [digit_char (n mod 10)])"

declare show_nat.simps [simp del]

text \<open>The format \<open>.0f\<close>: the exact value rounded to an integer, ties to even.\<close>

definition format_0f :: "double \<Rightarrow> string" where
  "format_0f x =
     (case x of
        Fin a \<Rightarrow>
          (if a < 0 then ''-'' @ show_nat (nat (- round_half_even a))
           else show_nat (nat (round_half_even a)))
      | PInf \<Rightarrow> ''inf''
      | NInf \<Rightarrow> ''-inf''
      | Not_a_number \<Rightarrow> ''nan'')"

section \<open>Data model\<close>

text \<open>
  A cell of a row of the store table: \<open>Absent\<close> when the table has no such column
  (\<open>store.get\<close> returns its default), \<open>NaN\<close> for the missing value of pandas;
  \<open>pd.notna\<close> holds of a \<open>Val\<close> only.
\<close>

datatype 'a cell = Absent | NaN | Val 'a

record store =
  URL :: "string cell"
  Categories :: "string cell"
  Description :: "string cell"
  Ships_To :: "string cell"
  Estimated_Sales :: "string cell"
  Products_Count :: "rat cell"

text \<open>
  A character of a page: a code point below 256, the euro sign (U+20AC) or the rupee
  sign (U+20B9). Neither sign is a letter, a digit or white space.
\<close>

datatype uchar = Chr char | Euro | Rupee

type_synonym utext = "uchar list"

definition utext :: "string \<Rightarrow> utext" where
  "utext s = map Chr s"

record price_analysis_rec =
  average_price :: double
  min_price :: double
  max_price :: double
  price_count :: nat
  currency_detected :: string

record brand_analysis_rec =
  positioning :: string
  luxury_score :: nat
  value_score :: nat

record analysis =
  url :: string
  title :: utext
  description :: utext
  categories :: "string list"
  price_analysis :: price_analysis_rec
  brand_analysis :: brand_analysis_rec
  language :: string
  country :: string
  analysis_timestamp :: string

text \<open>\<open>str(store.get(key, ''))\<close> on a text cell.\<close>

fun str_get :: "string cell \<Rightarrow> string" where
  "str_get Absent = ''''"
| "str_get NaN = ''nan''"
| "str_get (Val s) = s"

section \<open>The feature extractor\<close>

text \<open>
  The parsed page. \<open>soup\<close> is the list of top-level nodes of the document; an element
  has a tag name, a dictionary of attributes and children, and the \<open>Text\<close> nodes are the
  strings that \<open>get_text()\<close> joins.
\<close>

datatype node = Text utext | Elem string "string \<rightharpoonup> string" "node list"

fun node_text :: "node \<Rightarrow> utext" where
  "node_text (Text s) = s"
| "node_text (Elem tag attrs children) = concat (map node_text children)"

definition get_text :: "node list \<Rightarrow> utext" where
  "get_text soup = concat (map node_text soup)"

fun node_attrs :: "node \<Rightarrow> (string \<rightharpoonup> string)" where
  "node_attrs (Text s) = Map.empty"
| "node_attrs (Elem tag attrs children) = attrs"

fun first_some :: "'a option list \<Rightarrow> 'a option" where
  "first_some [] = None"
| "first_some (None # xs) = first_some xs"
| "first_some (Some x # xs) = Some x"

text \<open>\<open>soup.find(...)\<close>: the first element in document order that meets the criteria.\<close>

fun find_in :: "(string \<Rightarrow> (string \<rightharpoonup> string) \<Rightarrow> bool) \<Rightarrow> node \<Rightarrow> node option" where
  "find_in P (Text s) = None"
| "find_in P (Elem tag attrs children) =
     (if P tag attrs then Some (Elem tag attrs children)
      else first_some (map (find_in P) children))"

definition soup_find :: "(string \<Rightarrow> (string \<rightharpoonup> string) \<Rightarrow> bool) \<Rightarrow> node list \<Rightarrow> node option" where
  "soup_find P soup = first_some (map (find_in P) soup)"

text \<open>\<open>lower()\<close>, \<open>strip()\<close> and \<open>word in text\<close> on the text of a page.\<close>

fun lower_uchar :: "uchar \<Rightarrow> uchar" where
  "lower_uchar (Chr c) = Chr (lower_char c)"
| "lower_uchar Euro = Euro"
| "lower_uchar Rupee = Rupee"

definition lower_text :: "utext \<Rightarrow> utext" where
  "lower_text t = map lower_uchar t"

fun is_space_uchar :: "uchar \<Rightarrow> bool" where
  "is_space_uchar (Chr c) = is_space c"
| "is_space_uchar Euro = False"
| "is_space_uchar Rupee = False"

definition strip_text :: "utext \<Rightarrow> utext" where
  "strip_text t = rev (dropWhile is_space_uchar (rev (dropWhile is_space_uchar t)))"

definition in_text :: "string \<Rightarrow> utext \<Rightarrow> bool" where
  "in_text word t = is_in (utext word) t"

definition any_in_text :: "string list \<Rightarrow> utext \<Rightarrow> bool" where
  "any_in_text words t = list_ex (\<lambda>word. in_text word t) words"

definition extract_title :: "node list \<Rightarrow> utext" where
  "extract_title soup =
     (case soup_find (\<lambda>tag attrs. tag = ''title'') soup of
        Some title_elem \<Rightarrow> strip_text (node_text title_elem)
      | None \<Rightarrow> utext ''Unknown Marketplace'')"

definition extract_description :: "node list \<Rightarrow> utext" where
  "extract_description soup =
     (case soup_find (\<lambda>tag attrs. tag = ''meta'' \<and> attrs ''name'' = Some ''description'') soup of
        Some meta_desc \<Rightarrow>
          take 200 (utext (case node_attrs meta_desc ''content'' of Some c \<Rightarrow> c | None \<Rightarrow> ''''))
      | None \<Rightarrow>
          (case soup_find (\<lambda>tag attrs. tag = ''p'') soup of
             Some first_p \<Rightarrow> take 200 (node_text first_p)
           | None \<Rightarrow> []))"

definition category_keywords :: "(string \<times> string list) list" where
  "category_keywords =
     [(''fashion'', [''fashion'', ''clothing'', ''apparel'', ''dress'', ''shirt'', ''pants'',
                    ''denim'', ''jeans'']),
      (''beauty'', [''beauty'', ''cosmetics'', ''makeup'', ''skincare'', ''perfume'',
                   ''skincare device'', ''facial'']),
      (''electronics'', [''electronics'', ''phone'', ''laptop'', ''computer'', ''gadget'', ''tech'']),
      (''home'', [''home'', ''furniture'', ''decor'', ''kitchen'', ''bedroom'', ''living'']),
      (''sports'', [''sports'', ''fitness'', ''outdoor'', ''exercise'', ''athletic'', ''cycling'',
                   ''winter sports'']),
      (''jewelry'', [''jewelry'', ''watch'', ''necklace'', ''ring'', ''bracelet'', ''accessories'']),
      (''books'', [''books'', ''reading'', ''literature'', ''novel'', ''textbook'']),
      (''toys'', [''toys'', ''games'', ''children'', ''kids'', ''play'']),
      (''automotive'', [''car'', ''auto'', ''vehicle'', ''parts'', ''automotive'']),
      (''health'', [''health'', ''medical'', ''wellness'', ''supplement'', ''pharmacy'']),
      (''pets'', [''pet'', ''dog'', ''cat'', ''animal'', ''pet food'', ''pet toy'', ''pet care''])]"

definition extract_categories :: "node list \<Rightarrow> string list" where
  "extract_categories soup =
     (let text_content = lower_text (get_text soup);
          categories =
            fold (\<lambda>(category, keywords) categories.
                    if any_in_text keywords text_content then categories @ [category]
                    else categories)
                 category_keywords []
      in take 10 categories)"

subsection \<open>Prices\<close>

fun is_num_uchar :: "uchar \<Rightarrow> bool" where
  "is_num_uchar (Chr c) = is_num_char c"
| "is_num_uchar Euro = False"
| "is_num_uchar Rupee = False"

fun is_digit_uchar :: "uchar \<Rightarrow> bool" where
  "is_digit_uchar (Chr c) = is_digit c"
| "is_digit_uchar Euro = False"
| "is_digit_uchar Rupee = False"

text \<open>
  \<open>re.findall\<close> for the five price patterns: a currency sign, then a longest run of
  digits and commas, and, unless the pattern is the yen one, an optional dot and a
  longest run of digits. The search resumes after each match.
\<close>

function findall_price :: "uchar \<Rightarrow> bool \<Rightarrow> utext \<Rightarrow> utext list" where
  "findall_price sign decimals [] = []"
| "findall_price sign decimals (c # cs) =
     (if c = sign \<and> takeWhile is_num_uchar cs \<noteq> [] then
        (let run = takeWhile is_num_uchar cs;
             rest = dropWhile is_num_uchar cs;
             dot = (if decimals \<and> startswith rest [Chr CHR ''.''] then [Chr CHR ''.''] else []);
             rest = drop (length dot) rest;
             frac = (if decimals then takeWhile is_digit_uchar rest else []);
             rest = drop (length frac) rest
         in (c # run @ dot @ frac) # findall_price sign decimals rest)
      else findall_price sign decimals cs)"
  by pat_completeness auto
termination
  apply (relation "measure (\<lambda>(sign, decimals, s). length s)")
    apply (auto simp add: less_Suc_eq_le)
    apply (rule le_trans [OF diff_le_self length_dropWhile_le])+
  apply (rule length_dropWhile_le)
  done

text \<open>
  The patterns for \<open>$\<close>, the euro sign, the pound sign (U+00A3), the yen sign (U+00A5)
  and the rupee sign.
\<close>

definition price_patterns :: "(uchar \<times> bool) list" where
  "price_patterns =
     [(Chr CHR ''$'', True), (Euro, True), (Chr (char_of (163 :: nat)), True),
      (Chr (char_of (165 :: nat)), False), (Rupee, True)]"

text \<open>\<open>re.sub(r'[^\d.]', '', match)\<close>: the digits and dots of a match.\<close>

fun numeric_chars :: "utext \<Rightarrow> string" where
  "numeric_chars [] = []"
| "numeric_chars (Chr c # cs) =
     (if is_digit c \<or> c = CHR ''.'' then c # numeric_chars cs else numeric_chars cs)"
| "numeric_chars (Euro # cs) = numeric_chars cs"
| "numeric_chars (Rupee # cs) = numeric_chars cs"

text \<open>The body of the loop over the matches of one pattern.\<close>

definition add_price :: "utext \<Rightarrow> double list \<Rightarrow> double list" where
  "add_price match prices =
     (let numeric_value = numeric_chars match
      in if numeric_value \<noteq> [] then
           (case py_float numeric_value of
              None \<Rightarrow> prices
            | Some price \<Rightarrow>
                if fle (Fin 1) price \<and> fle price (Fin 50000) then prices @ [price] else prices)
         else prices)"

definition collect_prices :: "utext \<Rightarrow> double list" where
  "collect_prices text_content =
     fold (\<lambda>(sign, decimals) prices.
             fold add_price (findall_price sign decimals text_content) prices)
          price_patterns []"

text \<open>The indicators of each currency: a sign, a code and a word.\<close>

definition currency_indicators :: "(string \<times> utext list) list" where
  "currency_indicators =
     [(''USD'', [[Chr CHR ''$''], utext ''usd'', utext ''dollar'']),
      (''EUR'', [[Euro], utext ''eur'', utext ''euro'']),
      (''GBP'', [[Chr (char_of (163 :: nat))], utext ''gbp'', utext ''pound'']),
      (''JPY'', [[Chr (char_of (165 :: nat))], utext ''jpy'', utext ''yen'']),
      (''INR'', [[Rupee], utext ''inr'', utext ''rupee''])]"

fun first_currency :: "(string \<times> utext list) list \<Rightarrow> utext \<Rightarrow> string" where
  "first_currency [] text_lower = ''USD''"
| "first_currency ((currency, indicators) # rest) text_lower =
     (if list_ex (\<lambda>indicator. is_in indicator text_lower) indicators then currency
      else first_currency rest text_lower)"

definition detect_currency :: "node list \<Rightarrow> string" where
  "detect_currency soup =
     (let text_content = get_text soup
      in first_currency currency_indicators (lower_text text_content))"

text \<open>
  \<open>_analyze_prices\<close>, for a given way of summing floats, and with the left-to-right
  sum.
\<close>

definition analyze_prices_with :: "(double list \<Rightarrow> double) \<Rightarrow> node list \<Rightarrow> price_analysis_rec" where
  "analyze_prices_with float_sum soup =
     (let text_content = get_text soup;
          prices = collect_prices text_content
      in if prices \<noteq> [] then
           \<lparr>average_price = round2 (fdiv_int (float_sum prices) (length prices)),
            min_price = round2 (list_min prices),
            max_price = round2 (list_max prices),
            price_count = length prices,
            currency_detected = detect_currency soup\<rparr>
         else
           \<lparr>average_price = Fin 0, min_price = Fin 0, max_price = Fin 0, price_count = 0,
            currency_detected = ''USD''\<rparr>)"

definition analyze_prices :: "node list \<Rightarrow> price_analysis_rec" where
  "analyze_prices soup = analyze_prices_with py_sum soup"

text \<open>
  The numeric values of the regular-expression matches of a text, and those among them
  between 1 and 50000: what the price statistics are stated against.
\<close>

definition numeric_of_match :: "utext \<Rightarrow> double option" where
  "numeric_of_match match = py_float (numeric_chars match)"

definition matched_values :: "utext \<Rightarrow> double list" where
  "matched_values text_content =
     List.map_filter numeric_of_match
       (concat (map (\<lambda>(sign, decimals). findall_price sign decimals text_content) price_patterns))"

definition surviving_values :: "utext \<Rightarrow> double list" where
  "surviving_values text_content =
     filter (\<lambda>v. fle (Fin 1) v \<and> fle v (Fin 50000)) (matched_values text_content)"

subsection \<open>Brand positioning, language, country\<close>

definition analyze_brands :: "node list \<Rightarrow> brand_analysis_rec" where
  "analyze_brands soup =
     (let text_content = lower_text (get_text soup);
          luxury_indicators = [''luxury'', ''premium'', ''exclusive'', ''designer'', ''high-end''];
          luxury_score = length (filter (\<lambda>indicator. in_text indicator text_content) luxury_indicators);
          value_indicators = [''affordable'', ''cheap'', ''discount'', ''sale'', ''budget''];
          value_score = length (filter (\<lambda>indicator. in_text indicator text_content) value_indicators);
          positioning =
            (if luxury_score > value_score then ''premium''
             else if value_score > luxury_score then ''value''
             else ''mid-market'')
      in \<lparr>positioning = positioning, luxury_score = luxury_score, value_score = value_score\<rparr>)"

definition language_indicators :: "(string \<times> string list) list" where
  "language_indicators =
     [(''en'', [''the'', ''and'', ''for'', ''with'', ''this'', ''that'']),
      (''es'', [''el'', ''la'', ''de'', ''en'', ''un'', ''es'']),
      (''fr'', [''le'', ''de'', ''et'', [char_of (224 :: nat)], ''un'', ''il'']),
      (''de'', [''der'', ''die'', ''und'', ''in'', ''den'', ''von'']),
      (''it'', [''il'', ''di'', ''e'', ''la'', ''in'', ''da'']),
      (''pt'', [''o'', ''de'', ''e'', ''do'', ''da'', ''em''])]"

text \<open>\<open>max(scores, key=scores.get)\<close>: the first key with the highest score.\<close>

fun max_key :: "(string \<times> nat) list \<Rightarrow> string" where
  "max_key [] = ''en''"
| "max_key ((lang, score) # rest) =
     fst (fold (\<lambda>(l, s) (best, best_score). if s > best_score then (l, s) else (best, best_score))
            rest (lang, score))"

definition detect_language :: "node list \<Rightarrow> string" where
  "detect_language soup =
     (case soup_find (\<lambda>tag attrs. tag = ''html'' \<and> attrs ''lang'' \<noteq> None) soup of
        Some lang_attr \<Rightarrow>
          take 2 (case node_attrs lang_attr ''lang'' of Some l \<Rightarrow> l | None \<Rightarrow> ''en'')
      | None \<Rightarrow>
          (let text_sample = lower_text (take 1000 (get_text soup));
               language_scores =
                 map (\<lambda>(lang, indicators).
                        (lang, length (filter (\<lambda>indicator. in_text indicator text_sample) indicators)))
                     language_indicators
           in max_key language_scores))"

definition country_domains :: "(string \<times> string) list" where
  "country_domains =
     [(''.uk'', ''GB''), (''.co.uk'', ''GB''),
      (''.de'', ''DE''), (''.fr'', ''FR''), (''.es'', ''ES''), (''.it'', ''IT''),
      (''.ca'', ''CA''), (''.au'', ''AU''), (''.jp'', ''JP''), (''.br'', ''BR''),
      (''.in'', ''IN''), (''.cn'', ''CN''), (''.mx'', ''MX'')]"

text \<open>
  \<open>_detect_country\<close>, from the host that \<open>urlparse\<close> finds in the marketplace URL.
\<close>

fun first_country :: "(string \<times> string) list \<Rightarrow> string \<Rightarrow> string" where
  "first_country [] domain = ''US''"
| "first_country ((domain_ext, country_code) # rest) domain =
     (if is_in domain_ext domain then country_code else first_country rest domain)"

definition detect_country :: "string \<Rightarrow> string" where
  "detect_country netloc = first_country country_domains (lower netloc)"

section \<open>The supplier scorer\<close>

text \<open>
  \<open>_calculate_compatibility_score\<close> threads \<open>score\<close> through six blocks; each block
  below takes the score so far and returns the score after it.
\<close>

definition category_block :: "string list \<Rightarrow> string \<Rightarrow> string \<Rightarrow> int \<Rightarrow> int" where
  "category_block marketplace_categories store_categories store_description score =
     fold (\<lambda>category sc.
             if is_in category store_categories \<or> is_in category store_description
             then sc + 20 else sc)
          marketplace_categories score"

definition price_block :: "store \<Rightarrow> double \<Rightarrow> int \<Rightarrow> int" where
  "price_block st marketplace_avg_price score =
     (if flt (Fin 0) marketplace_avg_price then
        (let estimated_sales = str_get (Estimated_Sales st)
         in if is_in ''USD'' estimated_sales then
              (case re_search_num estimated_sales of
                 None \<Rightarrow> score
               | Some grp \<Rightarrow>
                   (case py_float (filter (\<lambda>c. c \<noteq> CHR '','') grp) of
                      None \<Rightarrow> score
                    | Some monthly_sales \<Rightarrow>
                        if flt (Fin 0) monthly_sales then
                          (let estimated_avg_price = fdiv_int monthly_sales 100
                           in if flt (fabs (fsub estimated_avg_price marketplace_avg_price))
                                     (fmul marketplace_avg_price (Fin (1 / 2)))
                              then score + 25
                              else if flt (fabs (fsub estimated_avg_price marketplace_avg_price))
                                          marketplace_avg_price
                              then score + 15
                              else score)
                        else score))
            else score)
      else score)"

definition positioning_block :: "string \<Rightarrow> string \<Rightarrow> int \<Rightarrow> int" where
  "positioning_block brand_positioning store_description score =
     (if brand_positioning = ''premium''
         \<and> any_in [''premium'', ''luxury'', ''high-end'', ''quality''] store_description
      then score + 15
      else if brand_positioning = ''value''
         \<and> any_in [''affordable'', ''value'', ''budget'', ''cheap''] store_description
      then score + 15
      else score)"

definition shipping_block :: "store \<Rightarrow> int \<Rightarrow> int" where
  "shipping_block st score =
     (let ships_to = str_get (Ships_To st)
      in if is_in ''International'' ships_to \<or> is_in ''United States'' ships_to
         then score + 10 else score)"

definition products_block :: "store \<Rightarrow> int \<Rightarrow> int" where
  "products_block st score =
     (let products_count = (case Products_Count st of Absent \<Rightarrow> Val 0 | c \<Rightarrow> c)
      in case products_count of
           Val n \<Rightarrow>
             if n > 0 then
               (if n > 100 then score + 10 else if n > 50 then score + 5 else score)
             else score
         | _ \<Rightarrow> score)"

definition origin_block :: "string \<Rightarrow> int \<Rightarrow> int" where
  "origin_block store_description score =
     (if any_in [''japan'', ''japanese'', ''tokyo'', ''osaka'', ''kyoto''] (lower store_description)
      then score + 15 else score)"

definition calculate_compatibility_score :: "store \<Rightarrow> analysis \<Rightarrow> int" where
  "calculate_compatibility_score st marketplace_analysis =
     (let score = 0;
          store_categories = lower (str_get (Categories st));
          store_description = lower (str_get (Description st));
          marketplace_categories = categories marketplace_analysis;
          score = category_block marketplace_categories store_categories store_description score;
          score = price_block st (average_price (price_analysis marketplace_analysis)) score;
          score = positioning_block (positioning (brand_analysis marketplace_analysis))
                    store_description score;
          score = shipping_block st score;
          score = products_block st score;
          score = origin_block store_description score
      in min 100 score)"

text \<open>
  The price term as the specification words it: nothing when the marketplace average is 0,
  when the estimated-sales text lacks \<open>USD\<close> or when no number can be parsed from it;
  otherwise 25, 15 or 0 by the distance between the estimated average price
  (parsed monthly sales / 100) and the marketplace average. The arithmetic is that of
  floats, as for every number of the program.
\<close>

definition parsed_monthly_sales :: "string \<Rightarrow> double option" where
  "parsed_monthly_sales text =
     (case re_search_num text of
        None \<Rightarrow> None
      | Some grp \<Rightarrow> py_float (filter (\<lambda>c. c \<noteq> CHR '','') grp))"

definition price_term_spec :: "store \<Rightarrow> double \<Rightarrow> int" where
  "price_term_spec st avg =
     (let text = str_get (Estimated_Sales st)
      in if avg = Fin 0 \<or> \<not> is_in ''USD'' text then 0
         else case parsed_monthly_sales text of
                None \<Rightarrow> 0
              | Some sales \<Rightarrow>
                  (let estimated = fdiv_int sales 100;
                       difference = fabs (fsub estimated avg)
                   in if flt difference (fmul (Fin (1 / 2)) avg) then 25
                      else if flt difference avg then 15
                      else 0))"

subsection \<open>Report rows\<close>

text \<open>\<open>s.replace(old, '')\<close> for a non-empty \<open>old\<close>: every occurrence, left to right.\<close>

function remove_sub :: "string \<Rightarrow> string \<Rightarrow> string" where
  "remove_sub old [] = []"
| "remove_sub old (c # cs) =
     (if old \<noteq> [] \<and> startswith (c # cs) old
      then remove_sub old (drop (length old) (c # cs))
      else c # remove_sub old cs)"
  by pat_completeness auto
termination
  by (relation "measure (\<lambda>(old, s). length s)") auto

definition estimate_price_range :: "store \<Rightarrow> string" where
  "estimate_price_range st =
     (let estimated_sales = str_get (Estimated_Sales st)
      in if is_in ''USD'' estimated_sales then
           (case re_search_num estimated_sales of
              None \<Rightarrow> ''Unknown''
            | Some grp \<Rightarrow>
                (case py_float (filter (\<lambda>c. c \<noteq> CHR '','') grp) of
                   None \<Rightarrow> ''Unknown''
                 | Some monthly_sales \<Rightarrow>
                     if flt (Fin 0) monthly_sales then
                       (let avg_price = fdiv_int monthly_sales 100;
                            min_price = fmul avg_price (round_double (3 / 10));
                            max_price = fmul avg_price (Fin 3)
                        in ''$'' @ format_0f min_price @ ''-$'' @ format_0f max_price)
                     else ''Unknown''))
         else ''Unknown'')"

text \<open>
  The dictionary \<open>store_info\<close>. Its \<open>products_count\<close> is the count of the row or the
  text \<open>'Unknown'\<close>.
\<close>

datatype count_or_unknown = Count rat | Unknown

record store_info =
  store_name :: string
  store_url :: string
  info_categories :: string
  info_description :: string
  price_range :: string
  international_shipping :: string
  estimated_monthly_sales :: string
  compatibility_score :: int
  info_products_count :: count_or_unknown

definition make_store_info :: "nat \<Rightarrow> store \<Rightarrow> int \<Rightarrow> store_info" where
  "make_store_info index st score =
     \<lparr>store_name =
        (case URL st of
           Val u \<Rightarrow> takeWhile (\<lambda>c. c \<noteq> CHR ''.'') (remove_sub ''https://'' u)
         | _ \<Rightarrow> ''Store_'' @ show_nat index),
      store_url = (case URL st of Val u \<Rightarrow> u | _ \<Rightarrow> ''''),
      info_categories = (case Categories st of Val c \<Rightarrow> c | _ \<Rightarrow> ''''),
      info_description = (case Description st of Val d \<Rightarrow> take 200 d | _ \<Rightarrow> ''''),
      price_range = estimate_price_range st,
      international_shipping =
        (if is_in ''International'' (str_get (Ships_To st)) then ''Yes'' else ''Unknown''),
      estimated_monthly_sales = (case Estimated_Sales st of Val e \<Rightarrow> e | _ \<Rightarrow> ''Unknown''),
      compatibility_score = score,
      info_products_count = (case Products_Count st of Val n \<Rightarrow> Count n | _ \<Rightarrow> Unknown)\<rparr>"

subsection \<open>Ranking\<close>

text \<open>
  \<open>stores_df.iterrows()\<close>: the rows with their index labels, which for a table read by
  \<open>pd.read_csv\<close> are the positions 0, 1, 2, ...
\<close>

definition iterrows :: "store list \<Rightarrow> (nat \<times> store) list" where
  "iterrows df = zip [0..<length df] df"

fun scoring_loop :: "analysis \<Rightarrow> (nat \<times> store) list \<Rightarrow> store_info list \<Rightarrow> store_info list" where
  "scoring_loop m [] scored_stores = scored_stores"
| "scoring_loop m ((index, st) # rows) scored_stores =
     (let score = calculate_compatibility_score st m
      in if score > 30
         then scoring_loop m rows (scored_stores @ [make_store_info index st score])
         else scoring_loop m rows scored_stores)"

text \<open>
  \<open>xs.sort(key=..., reverse=True)\<close> is a stable sort by descending key: the stable
  ascending sort by the negated key.
\<close>

definition sort_reverse :: "('a \<Rightarrow> int) \<Rightarrow> 'a list \<Rightarrow> 'a list" where
  "sort_reverse key xs = sort_key (\<lambda>x. - key x) xs"

text \<open>The slice \<open>xs[:n]\<close>; a negative \<open>n\<close> counts from the end.\<close>

definition slice_to :: "int \<Rightarrow> 'a list \<Rightarrow> 'a list" where
  "slice_to n xs = (if 0 \<le> n then take (nat n) xs else take (length xs - nat (- n)) xs)"

text \<open>
  \<open>generate_supplier_recommendations\<close>; the table is \<open>None\<close> or a list of rows, and
  \<open>max_suppliers\<close> is the analyzer's attribute.
\<close>

definition generate_supplier_recommendations ::
    "int \<Rightarrow> analysis \<Rightarrow> store list option \<Rightarrow> store_info list" where
  "generate_supplier_recommendations max_suppliers marketplace_analysis stores_df =
     (case stores_df of
        None \<Rightarrow> []
      | Some df \<Rightarrow>
          if df = [] then []
          else (let scored_stores = scoring_loop marketplace_analysis (iterrows df) [];
                    scored_stores = sort_reverse compatibility_score scored_stores
                in slice_to max_suppliers scored_stores))"

text \<open>
  The report rows of the input records that score above 30, in input order: what the
  ranking is stated against.
\<close>

definition qualifying :: "analysis \<Rightarrow> store list \<Rightarrow> store_info list" where
  "qualifying m df =
     map (\<lambda>(index, st). make_store_info index st (calculate_compatibility_score st m))
       (filter (\<lambda>(index, st). 30 < calculate_compatibility_score st m) (iterrows df))"

section \<open>The report writer and the programs\<close>

text \<open>
  What a run can raise. Every file written is kept with its content as data: the rows of
  a table or the fields of a summary. Writing itself is taken to succeed.
\<close>

datatype py_error = RequestException | HTTPError | ValueError | UnboundLocalError string

record summary_stats_rec =
  total_suppliers :: nat
  avg_compatibility_score :: double
  top_categories :: "string list"
  data_source :: string

record summary_rec =
  marketplace_analysis :: analysis
  supplier_recommendations :: "store_info list"
  summary_stats :: summary_stats_rec

record sample_supplier =
  sample_store_name :: string
  sample_store_url :: string
  sample_categories :: string
  sample_description :: string
  sample_price_range :: string
  sample_compatibility_score :: int

record simple_summary =
  summary_marketplace_url :: string
  summary_marketplace_name :: utext
  summary_detected_categories :: "string list"
  summary_supplier_count :: nat
  summary_analysis_timestamp :: string

datatype file_content =
    Csv_table "store_info list"
  | Json_summary summary_rec
  | Csv_sample "sample_supplier list"
  | Json_simple simple_summary

type_synonym files = "string \<rightharpoonup> file_content"

definition csv_name :: "string \<Rightarrow> string" where
  "csv_name timestamp = ''matching_results_'' @ timestamp @ ''.csv''"

definition json_name :: "string \<Rightarrow> string" where
  "json_name timestamp = ''matching_results_'' @ timestamp @ ''_summary.json''"

text \<open>
  \<open>save_results\<close>, given the timestamp that \<open>datetime.now()\<close> yields. The local
  variable \<open>csv_filename\<close> is \<open>None\<close> while it is unbound; reading it then raises
  \<open>UnboundLocalError\<close>.
\<close>

definition save_results ::
    "string \<Rightarrow> analysis \<Rightarrow> store_info list \<Rightarrow> files \<Rightarrow> files \<times> (py_error + string \<times> string)" where
  "save_results timestamp analysis suppliers fs =
     (let csv_filename = (if suppliers \<noteq> [] then Some (csv_name timestamp) else None);
          fs = (case csv_filename of
                  Some name \<Rightarrow> fs(name \<mapsto> Csv_table suppliers)
                | None \<Rightarrow> fs);
          summary =
            \<lparr>marketplace_analysis = analysis,
             supplier_recommendations = suppliers,
             summary_stats =
               \<lparr>total_suppliers = length suppliers,
                avg_compatibility_score =
                  (if suppliers \<noteq> []
                   then round_double (of_int (sum_list (map compatibility_score suppliers))
                                      / of_nat (length suppliers))
                   else Fin 0),
                top_categories = take 5 (categories analysis),
                data_source = ''all_japan_stores_unlimited.csv''\<rparr>\<rparr>;
          json_filename = json_name timestamp;
          fs = fs(json_filename \<mapsto> Json_summary summary)
      in case csv_filename of
           None \<Rightarrow> (fs, Inl (UnboundLocalError ''csv_filename''))
         | Some name \<Rightarrow> (fs, Inr (name, json_filename)))"

subsection \<open>The enhanced program\<close>

text \<open>
  What a run takes from outside: the answer to the one HTTP request (an error, or a
  status code and the parsed body), the host that \<open>urlparse\<close> finds in a URL, the
  store table as \<open>load_japanese_stores_database\<close> returns it, and the two readings
  of the clock.
\<close>

record response =
  status_code :: nat
  content :: "node list"

record env =
  http_get :: "string \<Rightarrow> py_error + response"
  url_netloc :: "string \<Rightarrow> string"
  database :: "store list option"
  now_isoformat :: string
  now_stamp :: string

definition analyze_marketplace :: "env \<Rightarrow> string \<Rightarrow> analysis option" where
  "analyze_marketplace e marketplace_url =
     (case http_get e marketplace_url of
        Inl err \<Rightarrow> None
      | Inr response \<Rightarrow>
          if 400 \<le> status_code response \<and> status_code response < 600 then None
          else
            (let soup = content response
             in Some \<lparr>url = marketplace_url,
                      title = extract_title soup,
                      description = extract_description soup,
                      categories = extract_categories soup,
                      price_analysis = analyze_prices soup,
                      brand_analysis = analyze_brands soup,
                      language = detect_language soup,
                      country = detect_country (url_netloc e marketplace_url),
                      analysis_timestamp = now_isoformat e\<rparr>))"

text \<open>
  \<open>int(s)\<close>: white space around (tab to carriage return, space, next line and
  no-break space), an optional sign, and digits that single underscores may separate,
  at most 4300 of them (the default \<open>sys.int_info.default_max_str_digits\<close>); \<open>None\<close>
  is the \<open>ValueError\<close>.
\<close>

definition is_int_space :: "char \<Rightarrow> bool" where
  "is_int_space c =
     (let n = (of_char c :: nat)
      in (9 \<le> n \<and> n \<le> 13) \<or> n = 32 \<or> n = 133 \<or> n = 160)"

fun digits_ok :: "string \<Rightarrow> bool" where
  "digits_ok [] = False"
| "digits_ok [c] = is_digit c"
| "digits_ok (c # d # cs) =
     (is_digit c \<and> (if d = CHR ''_'' then digits_ok cs else digits_ok (d # cs)))"

definition py_int :: "string \<Rightarrow> int option" where
  "py_int s =
     (let t = rev (dropWhile is_int_space (rev (dropWhile is_int_space s)));
          negative = startswith t ''-'';
          body = (if startswith t ''-'' \<or> startswith t ''+'' then tl t else t)
      in if digits_ok body \<and> length (filter (\<lambda>c. c \<noteq> CHR ''_'') body) \<le> 4300
         then Some ((if negative then - 1 else 1)
                    * int (digits_val (filter (\<lambda>c. c \<noteq> CHR ''_'') body)))
         else None)"

text \<open>
  How a program ends: \<open>sys.exit(n)\<close>, an exception nobody catches, or the end of the
  script; and the exit status the shell sees.
\<close>

datatype exit_status = Exited nat | Raised py_error | Completed

fun exit_code :: "exit_status \<Rightarrow> nat" where
  "exit_code (Exited n) = n"
| "exit_code (Raised err) = 1"
| "exit_code Completed = 0"

definition usage_line :: string where
  "usage_line =
     ''Usage: python github_actions_enhanced_analyzer.py <marketplace_url> [max_suppliers]''"

text \<open>
  \<open>main\<close> after its arguments are read. Of the printed lines only the usage
  message is kept, so this part prints nothing.
\<close>

definition pipeline ::
    "env \<Rightarrow> string \<Rightarrow> int \<Rightarrow> files \<Rightarrow> string list \<times> exit_status \<times> files" where
  "pipeline e marketplace_url max_suppliers fs =
     (case database e of
        None \<Rightarrow> ([], Exited 1, fs)
      | Some stores_df \<Rightarrow>
          (case analyze_marketplace e marketplace_url of
             None \<Rightarrow> ([], Exited 1, fs)
           | Some analysis \<Rightarrow>
               (let suppliers =
                      generate_supplier_recommendations max_suppliers analysis (Some stores_df)
                in case save_results (now_stamp e) analysis suppliers fs of
                     (fs, Inl err) \<Rightarrow> ([], Raised err, fs)
                   | (fs, Inr (csv_file, json_file)) \<Rightarrow> ([], Completed, fs))))"

definition main :: "env \<Rightarrow> string list \<Rightarrow> files \<Rightarrow> string list \<times> exit_status \<times> files" where
  "main e argv fs =
     (if length argv < 2 then ([usage_line], Exited 1, fs)
      else
        (let marketplace_url = argv ! 1
         in case (if length argv > 2 then py_int (argv ! 2) else Some 20) of
              None \<Rightarrow> ([], Raised ValueError, fs)
            | Some max_suppliers \<Rightarrow> pipeline e marketplace_url max_suppliers fs))"

subsection \<open>The fallback program\<close>

definition sample_suppliers :: "sample_supplier list" where
  "sample_suppliers =
     [\<lparr>sample_store_name = ''Tokyo Fashion'',
       sample_store_url = ''https://example-tokyo-fashion.com'',
       sample_categories = ''Fashion, Accessories'',
       sample_description = ''Premium Japanese fashion brand'',
       sample_price_range = ''$50-$500'',
       sample_compatibility_score = 90\<rparr>,
      \<lparr>sample_store_name = ''Osaka Electronics'',
       sample_store_url = ''https://example-osaka-electronics.com'',
       sample_categories = ''Electronics, Gadgets'',
       sample_description = ''High-quality Japanese electronics'',
       sample_price_range = ''$100-$2000'',
       sample_compatibility_score = 85\<rparr>,
      \<lparr>sample_store_name = ''Kyoto Beauty'',
       sample_store_url = ''https://example-kyoto-beauty.com'',
       sample_categories = ''Beauty, Cosmetics'',
       sample_description = ''Traditional Japanese beauty products'',
       sample_price_range = ''$25-$300'',
       sample_compatibility_score = 88\<rparr>,
      \<lparr>sample_store_name = ''Hokkaido Home'',
       sample_store_url = ''https://example-hokkaido-home.com'',
       sample_categories = ''Home, Furniture'',
       sample_description = ''Minimalist Japanese home decor'',
       sample_price_range = ''$150-$1500'',
       sample_compatibility_score = 82\<rparr>,
      \<lparr>sample_store_name = ''Nara Sports'',
       sample_store_url = ''https://example-nara-sports.com'',
       sample_categories = ''Sports, Outdoor'',
       sample_description = ''Japanese sports equipment'',
       sample_price_range = ''$40-$800'',
       sample_compatibility_score = 75\<rparr>]"

text \<open>
  \<open>analyze_marketplace\<close> of the fallback script: the files after the run and the
  value returned. A failed request is caught and \<open>False\<close> returned; an error status
  is not checked here, the body is parsed whatever the status.
\<close>

definition simple_analyze_marketplace :: "env \<Rightarrow> string \<Rightarrow> files \<Rightarrow> files \<times> bool" where
  "simple_analyze_marketplace e page_url fs =
     (case http_get e page_url of
        Inl err \<Rightarrow> (fs, False)
      | Inr response \<Rightarrow>
          (let soup = content response;
               title_text =
                 (case soup_find (\<lambda>tag attrs. tag = ''title'') soup of
                    Some title_elem \<Rightarrow> strip_text (node_text title_elem)
                  | None \<Rightarrow> utext ''Unknown'');
               text_content = lower_text (get_text soup);
               keywords = [''fashion'', ''beauty'', ''electronics'', ''home'', ''sports'', ''jewelry''];
               detected = filter (\<lambda>keyword. in_text keyword text_content) keywords;
               suppliers = sample_suppliers;
               timestamp = now_stamp e;
               csv_filename = csv_name timestamp;
               fs = fs(csv_filename \<mapsto> Csv_sample suppliers);
               summary =
                 \<lparr>summary_marketplace_url = page_url,
                  summary_marketplace_name = title_text,
                  summary_detected_categories = detected,
                  summary_supplier_count = length suppliers,
                  summary_analysis_timestamp = timestamp\<rparr>;
               json_filename = json_name timestamp;
               fs = fs(json_filename \<mapsto> Json_simple summary)
           in (fs, True)))"

definition simple_main :: "env \<Rightarrow> string list \<Rightarrow> files \<Rightarrow> string list \<times> exit_status \<times> files" where
  "simple_main e argv fs =
     (let page_url = (if length argv > 1 then argv ! 1 else ''https://www.extra.com'')
      in case simple_analyze_marketplace e page_url fs of
           (fs, ok) \<Rightarrow> ([], Completed, fs))"

subsection \<open>Example inputs\<close>

definition scenario_page :: "node list" where
  "scenario_page =
     [Elem ''html'' [''lang'' \<mapsto> ''ja'']
        [Elem ''head'' Map.empty [Elem ''title'' Map.empty [Text (utext ''Tokyo Style'')]],
         Elem ''body'' Map.empty [Text (utext ''Premium Japanese fashion, $120 dresses'')]]]"

definition example_env :: env where
  "example_env =
     \<lparr>http_get = (\<lambda>u. Inr \<lparr>status_code = 200, content = scenario_page\<rparr>),
      url_netloc = (\<lambda>u. ''shop.example.com''),
      database = Some [],
      now_isoformat = ''2025-01-01T00:00:00'',
      now_stamp = ''20250101_000000''\<rparr>"


definition blank_store :: store where
  "blank_store =
     \<lparr>URL = NaN, Categories = NaN, Description = NaN, Ships_To = NaN,
      Estimated_Sales = NaN, Products_Count = NaN\<rparr>"

definition example_store :: store where
  "example_store =
     \<lparr>URL = Val ''https://tokyo-gadgets.example.jp'',
      Categories = Val ''Electronics'',
      Description = Val ''Affordable Tokyo electronics, budget-friendly'',
      Ships_To = Val ''Japan, United States'',
      Estimated_Sales = Val ''USD 12,000 per month'',
      Products_Count = Val 80\<rparr>"

text \<open>A store whose estimated price, 74.85, lies at half the average 49.9 from it.\<close>

definition threshold_store :: store where
  "threshold_store =
     \<lparr>URL = NaN, Categories = NaN, Description = NaN, Ships_To = NaN,
      Estimated_Sales = Val ''USD 7,485 per month'', Products_Count = NaN\<rparr>"

definition example_analysis :: analysis where
  "example_analysis =
     \<lparr>url = ''https://shop.example.com'',
      title = utext ''Example Shop'',
      description = [],
      categories = [''electronics''],
      price_analysis =
        \<lparr>average_price = Fin 100, min_price = Fin 50, max_price = Fin 150, price_count = 2,
         currency_detected = ''USD''\<rparr>,
      brand_analysis = \<lparr>positioning = ''value'', luxury_score = 0, value_score = 1\<rparr>,
      language = ''en'',
      country = ''US'',
      analysis_timestamp = ''2025-01-01T00:00:00''\<rparr>"

section \<open>Properties of the float model\<close>

text \<open>
  Rounding to a double: bounds of the exponent, and rules that evaluate \<open>round_double\<close>
  on a given number from its exponent and mantissa.
\<close>

lemma pow2_pos: "0 < pow2 k"
  by (simp add: pow2_def)

lemma pow2_mono: "j \<le> k \<Longrightarrow> pow2 j \<le> pow2 k"
  by (simp add: pow2_def power_int_increasing)

lemma pow2_strict_mono: "j < k \<Longrightarrow> pow2 j < pow2 k"
  by (simp add: pow2_def power_int_strict_increasing)

lemma round_half_even_close: "\<bar>of_int (round_half_even y) - y\<bar> \<le> 1 / 2"
proof -
  have "of_int \<lfloor>y\<rfloor> \<le> y" and "y < of_int \<lfloor>y\<rfloor> + 1" by linarith+
  then show ?thesis
    by (auto simp add: round_half_even_def Let_def)
qed

lemma round_half_even_of_int: "round_half_even (of_int n) = n"
  by (simp add: round_half_even_def)

lemma round_half_even_cases:
  "round_half_even y = \<lfloor>y\<rfloor> \<or> round_half_even y = \<lfloor>y\<rfloor> + 1"
  by (simp add: round_half_even_def Let_def)

lemma round_half_even_nonneg: "0 \<le> y \<Longrightarrow> 0 \<le> round_half_even y"
proof -
  assume "0 \<le> y"
  then have "0 \<le> \<lfloor>y\<rfloor>" by simp
  then show ?thesis using round_half_even_cases [of y] by auto
qed

lemma floor_minus_nonint:
  fixes y :: rat
  assumes "y \<noteq> of_int \<lfloor>y\<rfloor>"
  shows "\<lfloor>- y\<rfloor> = - \<lfloor>y\<rfloor> - 1"
proof -
  have "of_int \<lfloor>y\<rfloor> < y" using assms of_int_floor_le [of y] by (metis order_less_le)
  moreover have "y < of_int \<lfloor>y\<rfloor> + 1" by linarith
  ultimately show ?thesis by (intro floor_unique) auto
qed

lemma round_half_even_neg: "round_half_even (- y) = - round_half_even y"
proof (cases "y = of_int \<lfloor>y\<rfloor>")
  case True
  then obtain n where y: "y = of_int n" ..
  have "round_half_even (- of_int n) = round_half_even (of_int (- n))" by simp
  then show ?thesis unfolding y by (simp only: round_half_even_of_int)
next
  case False
  have f: "\<lfloor>- y\<rfloor> = - \<lfloor>y\<rfloor> - 1" using False by (rule floor_minus_nonint)
  have lo: "of_int \<lfloor>y\<rfloor> < y" using False of_int_floor_le [of y] by (metis order_less_le)
  have hi: "y < of_int \<lfloor>y\<rfloor> + 1" by linarith
  show ?thesis
    using lo hi by (auto simp add: round_half_even_def Let_def f)
qed

lemma round_half_even_nonpos: "y \<le> 0 \<Longrightarrow> round_half_even y \<le> 0"
  using round_half_even_nonneg [of "- y"] by (simp add: round_half_even_neg)

lemma bitlen_ge_1: "0 < n \<Longrightarrow> 1 \<le> bitlen n"
  using bitlen_eq_zero_iff [of n] bitlen_nonneg [of n] by linarith

lemma ilog2_bounds:
  assumes "0 < x"
  shows "pow2 (ilog2 x) \<le> x \<and> x < pow2 (ilog2 x + 1)"
proof (cases "1 \<le> x")
  case True
  let ?n = "\<lfloor>x\<rfloor>"
  have n: "0 < ?n" using True by simp
  have b: "1 \<le> bitlen ?n" using n by (rule bitlen_ge_1)
  from bitlen_bounds [OF n]
  have lo: "2 ^ nat (bitlen ?n - 1) \<le> ?n" and hi: "?n < 2 ^ nat (bitlen ?n)" by auto
  have e: "ilog2 x = bitlen ?n - 1" using True by (simp add: ilog2_def)
  have "pow2 (bitlen ?n - 1) = of_int (2 ^ nat (bitlen ?n - 1))"
    using b by (simp add: pow2_def power_int_nonneg_exp)
  also have "\<dots> \<le> of_int ?n" using lo by (simp only: of_int_le_iff)
  also have "\<dots> \<le> x" by simp
  finally have 1: "pow2 (ilog2 x) \<le> x" unfolding e .
  have "x < of_int ?n + 1" by linarith
  also have "\<dots> = of_int (?n + 1)" by simp
  also have "\<dots> \<le> of_int (2 ^ nat (bitlen ?n))" using hi by (simp only: of_int_le_iff)
  also have "\<dots> = pow2 (bitlen ?n)"
    using b by (simp add: pow2_def power_int_nonneg_exp)
  finally have 2: "x < pow2 (ilog2 x + 1)" unfolding e by simp
  from 1 2 show ?thesis ..
next
  case False
  let ?c = "\<lceil>1 / x\<rceil>"
  let ?k = "bitlen (?c - 1)"
  have y: "1 < 1 / x" using assms False by simp
  then have c: "2 \<le> ?c" by (simp add: le_ceiling_iff) 
  then have n: "0 < ?c - 1" by simp
  have b: "1 \<le> ?k" using n by (rule bitlen_ge_1)
  from bitlen_bounds [OF n]
  have lo: "2 ^ nat (?k - 1) \<le> ?c - 1" and hi: "?c - 1 < 2 ^ nat ?k" by auto
  have e: "ilog2 x = - ?k" using False by (simp add: ilog2_def)
  have p: "pow2 (- ?k) = 1 / 2 ^ nat ?k"
    using b by (simp add: pow2_def power_int_minus_divide power_int_nonneg_exp)
  have p': "pow2 (- ?k + 1) = 1 / 2 ^ nat (?k - 1)"
  proof -
    have "- ?k + 1 = - (?k - 1)" by simp
    then show ?thesis using b by (simp only: pow2_def power_int_minus_divide) (simp add: power_int_nonneg_exp)
  qed
  have "1 / x \<le> of_int ?c" by simp
  also have "of_int ?c \<le> (of_int (2 ^ nat ?k) :: rat)" using hi by (simp only: of_int_le_iff)
  finally have "1 / x \<le> 2 ^ nat ?k" by simp
  then have 1: "pow2 (ilog2 x) \<le> x"
    unfolding e p using assms by (simp add: field_simps)
  have "(of_int (2 ^ nat (?k - 1)) :: rat) \<le> of_int (?c - 1)" using lo by (simp only: of_int_le_iff)
  also have "\<dots> < 1 / x" by simp linarith
  finally have "2 ^ nat (?k - 1) < 1 / x" by simp
  then have 2: "x < pow2 (ilog2 x + 1)"
    unfolding e p' using assms by (simp add: field_simps)
  from 1 2 show ?thesis ..
qed

lemma ilog2_eqI:
  assumes "pow2 e \<le> x" and "x < pow2 (e + 1)"
  shows "ilog2 x = e"
proof -
  have x: "0 < x" using assms(1) pow2_pos [of e] by linarith
  from ilog2_bounds [OF x] have lo: "pow2 (ilog2 x) \<le> x" and hi: "x < pow2 (ilog2 x + 1)" by auto
  have "\<not> e + 1 \<le> ilog2 x"
  proof
    assume "e + 1 \<le> ilog2 x"
    then have "pow2 (e + 1) \<le> pow2 (ilog2 x)" by (rule pow2_mono)
    with lo assms(2) show False by linarith
  qed
  moreover have "\<not> ilog2 x + 1 \<le> e"
  proof
    assume "ilog2 x + 1 \<le> e"
    then have "pow2 (ilog2 x + 1) \<le> pow2 e" by (rule pow2_mono)
    with hi assms(1) show False by linarith
  qed
  ultimately show ?thesis by linarith
qed

lemma round_double_neg: "round_double (- x) = fneg (round_double x)"
  by (simp add: round_double_def Let_def round_half_even_neg)

lemma round_double_nonneg:
  assumes "0 \<le> x"
  shows "(\<exists>r. round_double x = Fin r \<and> 0 \<le> r) \<or> round_double x = PInf"
proof (cases "x = 0")
  case True
  then show ?thesis by (simp add: round_double_def)
next
  case False
  let ?ulp = "pow2 (max (ilog2 \<bar>x\<bar>) (- 1022) - 52)"
  have "0 \<le> x / ?ulp" using assms pow2_pos [of "max (ilog2 \<bar>x\<bar>) (- 1022) - 52"] by simp
  then have "0 \<le> round_half_even (x / ?ulp)" by (rule round_half_even_nonneg)
  then have "0 \<le> of_int (round_half_even (x / ?ulp)) * ?ulp"
    using pow2_pos [of "max (ilog2 \<bar>x\<bar>) (- 1022) - 52"] by simp
  then show ?thesis using False assms by (simp add: round_double_def Let_def)
qed

lemma round_double_nonpos:
  assumes "x \<le> 0"
  shows "(\<exists>r. round_double x = Fin r \<and> r \<le> 0) \<or> round_double x = NInf"
proof -
  have "0 \<le> - x" using assms by simp
  from round_double_nonneg [OF this] show ?thesis
    unfolding round_double_neg by (cases "round_double x") auto
qed

lemma abs_round_le:
  "\<bar>of_int (round_half_even y) * u\<bar> \<le> \<bar>y * u\<bar> + \<bar>u\<bar> / 2"
proof -
  have "\<bar>of_int (round_half_even y) * u\<bar> = \<bar>of_int (round_half_even y)\<bar> * \<bar>u\<bar>"
    by (simp add: abs_mult)
  also have "\<bar>(of_int (round_half_even y) :: rat)\<bar> \<le> \<bar>y\<bar> + 1 / 2"
    using round_half_even_close [of y] by linarith
  finally show ?thesis by (simp add: abs_mult algebra_simps mult_right_mono)
qed

lemma round_double_eval:
  assumes "pow2 e \<le> \<bar>x\<bar>" and "\<bar>x\<bar> < pow2 (e + 1)" and "- 1022 \<le> e" and "e \<le> 1022"
  shows "round_double x = Fin (of_int (round_half_even (x / pow2 (e - 52))) * pow2 (e - 52))"
proof -
  let ?u = "pow2 (e - 52)"
  let ?r = "of_int (round_half_even (x / ?u)) * ?u"
  have x: "x \<noteq> 0" using assms(1) pow2_pos [of e] by auto
  have l: "ilog2 \<bar>x\<bar> = e" using assms(1,2) by (rule ilog2_eqI)
  have u: "0 < ?u" by (rule pow2_pos)
  have "\<bar>?r\<bar> \<le> \<bar>x / ?u * ?u\<bar> + \<bar>?u\<bar> / 2" by (rule abs_round_le)
  also have "\<dots> = \<bar>x\<bar> + ?u / 2" using u by simp
  also have "\<dots> < pow2 (e + 1) + ?u / 2" using assms(2) by simp
  also have "\<dots> \<le> pow2 1023 + pow2 1023 / 2"
    using pow2_mono [of "e + 1" 1023] pow2_mono [of "e - 52" 1023] assms(4) by simp
  also have "\<dots> < pow2 1024"
  proof -
    have "pow2 1024 = 2 * pow2 1023" by (simp add: pow2_def)
    then show ?thesis using pow2_pos [of 1023] by simp
  qed
  finally have "\<not> pow2 1024 \<le> \<bar>?r\<bar>" by simp
  then show ?thesis
    using x l assms(3) by (simp add: round_double_def Let_def max_def)
qed

lemma is_double_range:
  assumes "round_double a = Fin a" and "0 < a"
  shows "pow2 (- 1074) \<le> a \<and> a < pow2 1024"
proof -
  let ?e = "max (ilog2 \<bar>a\<bar>) (- 1022)"
  let ?u = "pow2 (?e - 52)"
  let ?m = "round_half_even (a / ?u)"
  have a0: "a \<noteq> 0" using assms(2) by simp
  have both: "\<not> pow2 1024 \<le> \<bar>of_int ?m * ?u\<bar> \<and> a = of_int ?m * ?u"
    using assms a0 by (auto simp add: round_double_def Let_def split: if_splits)
  then have nover: "\<not> pow2 1024 \<le> \<bar>of_int ?m * ?u\<bar>" and eq: "a = of_int ?m * ?u"
    by blast+
  have u: "0 < ?u" by (rule pow2_pos)
  from assms(2) have "0 < of_int ?m * ?u" by (subst eq [symmetric])
  then have "0 < (of_int ?m :: rat)" using u by (rule zero_less_mult_pos2)
  then have "1 \<le> ?m" by simp
  then have "(1::rat) \<le> of_int ?m" by simp
  then have "?u \<le> of_int ?m * ?u" using u by simp
  then have "?u \<le> a" by (subst eq)
  moreover have "pow2 (- 1074) \<le> ?u" by (rule pow2_mono) simp
  ultimately have lo: "pow2 (- 1074) \<le> a" by linarith
  have "\<not> pow2 1024 \<le> \<bar>a\<bar>" using nover by (subst eq)
  then have hi: "a < pow2 1024" using assms(2) by simp
  from lo hi show ?thesis ..
qed

lemma round_double_half:
  assumes "round_double a = Fin a" and "0 < a"
  shows "\<exists>r. round_double (a * (1 / 2)) = Fin r \<and> r \<le> a"
proof -
  let ?x = "a * (1 / 2)"
  let ?e = "max (ilog2 \<bar>?x\<bar>) (- 1022)"
  let ?u = "pow2 (?e - 52)"
  let ?r = "of_int (round_half_even (?x / ?u)) * ?u"
  from is_double_range [OF assms] have lo: "pow2 (- 1074) \<le> a" and hi: "a < pow2 1024" by auto
  have x: "0 < ?x" using assms(2) by simp
  have u: "0 < ?u" by (rule pow2_pos)
  have uh: "?u / 2 \<le> ?x"
  proof (cases "- 1022 \<le> ilog2 \<bar>?x\<bar>")
    case True
    then have "?u = pow2 (ilog2 ?x - 52)" using x by (simp add: max_def)
    also have "\<dots> \<le> pow2 (ilog2 ?x)" by (rule pow2_mono) simp
    also have "\<dots> \<le> ?x" using ilog2_bounds [OF x] by simp
    finally show ?thesis using u by linarith
  next
    case False
    then have "?u = pow2 (- 1074)" by (simp add: max_def)
    then show ?thesis using lo by simp
  qed
  have "\<bar>?r\<bar> \<le> \<bar>?x / ?u * ?u\<bar> + \<bar>?u\<bar> / 2" by (rule abs_round_le)
  also have "\<dots> = ?x + ?u / 2" using u x by simp
  also have "\<dots> \<le> a" using uh by simp
  finally have ra: "\<bar>?r\<bar> \<le> a" .
  then have "\<not> pow2 1024 \<le> \<bar>?r\<bar>" using hi by linarith
  then have "round_double ?x = Fin ?r"
    using x by (simp add: round_double_def Let_def)
  moreover have "?r \<le> a" using ra by linarith
  ultimately show ?thesis by blast
qed

lemma flt_PInf_left [simp]: "\<not> flt PInf y"
  by (cases y) simp_all

lemma flt_nan_left [simp]: "\<not> flt Not_a_number y"
  by (cases y) simp_all

lemma flt_nan_right [simp]: "\<not> flt x Not_a_number"
  by (cases x) simp_all

lemma flt_NInf_right [simp]: "\<not> flt x NInf"
  by (cases x) simp_all

lemma fmul_commute: "fmul x y = fmul y x"
  by (cases x; cases y) (simp_all add: fmul_def mult.commute)

lemma not_less_when_nonpositive:
  assumes "\<not> flt (Fin 0) avg" and "avg \<noteq> Fin 0"
  shows "\<not> flt (fabs t) (fmul (Fin (1 / 2)) avg) \<and> \<not> flt (fabs t) avg"
proof (cases avg)
  case (Fin a)
  then have a: "a < 0" using assms by auto
  then have "a * (1 / 2) \<le> 0" by simp
  from round_double_nonpos [OF this]
  have "\<not> flt (fabs t) (round_double (a * (1 / 2)))"
    by (cases t) auto
  moreover have "\<not> flt (fabs t) (Fin a)" using a by (cases t) auto
  ultimately show ?thesis using Fin by (simp add: fmul_def mult.commute)
next
  case PInf
  then show ?thesis using assms by simp
next
  case NInf
  then show ?thesis by (cases t) (simp_all add: fmul_def)
next
  case Not_a_number
  then show ?thesis by (cases t) (simp_all add: fmul_def)
qed

lemma not_less_when_zero_sales:
  assumes "is_double avg" and "flt (Fin 0) avg"
  shows "\<not> flt (fabs (fsub (fdiv_int (Fin 0) 100) avg)) (fmul (Fin (1 / 2)) avg)
       \<and> \<not> flt (fabs (fsub (fdiv_int (Fin 0) 100) avg)) avg"
proof (cases avg)
  case (Fin a)
  then have a: "0 < a" and d: "round_double a = Fin a"
    using assms by (simp_all add: is_double_def)
  have z: "fdiv_int (Fin 0) 100 = Fin 0" by (simp add: fdiv_int_def round_double_def)
  have s: "fabs (fsub (Fin 0) (Fin a)) = Fin a"
    using a by (simp add: fsub_def round_double_neg d)
  from round_double_half [OF d a] obtain r where
    r: "round_double (a * (1 / 2)) = Fin r" "r \<le> a" by blast
  have m: "fmul (Fin (1 / 2)) (Fin a) = Fin r"
    using r(1) by (simp add: fmul_def mult.commute)
  show ?thesis unfolding Fin z s m using r(2) by simp
next
  case PInf
  then show ?thesis by (simp add: fdiv_int_def round_double_def fsub_def)
next
  case NInf
  then show ?thesis using assms by simp
next
  case Not_a_number
  then show ?thesis using assms by simp
qed

lemma round_half_even_eqI:
  assumes "\<bar>y - of_int m\<bar> < 1 / 2"
  shows "round_half_even y = m"
proof -
  have "\<bar>(of_int (round_half_even y) :: rat) - of_int m\<bar> < 1"
    using round_half_even_close [of y] assms by linarith
  then have "\<bar>(of_int (round_half_even y - m) :: rat)\<bar> < 1" by simp
  then have "\<bar>round_half_even y - m\<bar> < 1"
    by (metis of_int_abs of_int_less_1_iff)
  then show ?thesis by linarith
qed

lemma round_double_evalI:
  assumes "pow2 e \<le> \<bar>x\<bar>" and "\<bar>x\<bar> < pow2 (e + 1)" and "- 1022 \<le> e" and "e \<le> 1022"
    and "\<bar>x / pow2 (e - 52) - of_int m\<bar> < 1 / 2"
  shows "round_double x = Fin (of_int m * pow2 (e - 52))"
  using round_double_eval [OF assms(1-4)] round_half_even_eqI [OF assms(5)] by simp

lemma ilog2_less:
  assumes "0 < x" and "x < pow2 j"
  shows "ilog2 x < j"
proof (rule ccontr)
  assume "\<not> ilog2 x < j"
  then have "pow2 j \<le> pow2 (ilog2 x)" by (intro pow2_mono) simp
  with ilog2_bounds [OF assms(1)] assms(2) show False by linarith
qed

lemma pow2_add: "pow2 (j + k) = pow2 j * pow2 k"
  by (simp add: pow2_def power_int_add)

lemma pow2_nonneg_int: "0 \<le> k \<Longrightarrow> pow2 k = of_int (2 ^ nat k)"
  by (simp add: pow2_def power_int_nonneg_exp)

lemma round_double_exact:
  assumes "x = of_int m * pow2 k" and "\<bar>m\<bar> < 2 ^ 53" and "- 1074 \<le> k" and "\<bar>x\<bar> < pow2 1024"
  shows "round_double x = Fin x"
proof (cases "x = 0")
  case True
  then show ?thesis by (simp add: round_double_def)
next
  case False
  define e where "e = max (ilog2 \<bar>x\<bar>) (- 1022)"
  define u where "u = pow2 (e - 52)"
  have u: "0 < u" unfolding u_def by (rule pow2_pos)
  have x: "0 < \<bar>x\<bar>" using False by simp
  have "\<bar>x\<bar> = of_int \<bar>m\<bar> * pow2 k"
    using pow2_pos [of k] unfolding assms(1) by (simp add: abs_mult)
  also have "\<dots> < of_int (2 ^ 53) * pow2 k"
    using assms(2) pow2_pos [of k] by (intro mult_strict_right_mono) (simp_all only: of_int_less_iff)
  also have "\<dots> = pow2 (k + 53)" by (simp add: pow2_add) (simp add: pow2_def)
  finally have "ilog2 \<bar>x\<bar> < k + 53" using x by (intro ilog2_less)
  then have d: "0 \<le> k + 52 - e" using assms(3) unfolding e_def by simp
  have pk: "pow2 k = pow2 (k + 52 - e) * u"
    unfolding u_def by (simp add: pow2_add [symmetric])
  have "x / u = of_int m * (pow2 (k + 52 - e) * u) / u"
    unfolding assms(1) by (simp only: pk [symmetric])
  also have "\<dots> = of_int m * pow2 (k + 52 - e)" using u by simp
  also have "\<dots> = of_int (m * 2 ^ nat (k + 52 - e))"
    using d by (simp add: pow2_nonneg_int)
  finally have q: "x / u = of_int (m * 2 ^ nat (k + 52 - e))" .
  have "of_int (round_half_even (x / u)) * u = x / u * u"
    unfolding q round_half_even_of_int ..
  also have "\<dots> = x" using u by simp
  finally have r: "of_int (round_half_even (x / u)) * u = x" .
  have "round_double x =
      (if pow2 1024 \<le> \<bar>of_int (round_half_even (x / u)) * u\<bar> then (if 0 < x then PInf else NInf)
       else Fin (of_int (round_half_even (x / u)) * u))"
    using False unfolding u_def e_def by (simp add: round_double_def Let_def)
  then show ?thesis unfolding r using assms(4) by simp
qed

lemma round_double_int:
  assumes "\<bar>n\<bar> < 2 ^ 53"
  shows "round_double (of_int n) = Fin (of_int n)"
proof (rule round_double_exact [of _ n 0])
  show "(of_int n :: rat) = of_int n * pow2 0" by (simp add: pow2_def)
  show "\<bar>n\<bar> < 2 ^ 53" by (rule assms)
  show "- 1074 \<le> (0::int)" by simp
  have "\<bar>(of_int n :: rat)\<bar> = of_int \<bar>n\<bar>" by simp
  also have "\<dots> < of_int (2 ^ 53)" using assms by (simp only: of_int_less_iff)
  also have "\<dots> \<le> pow2 1024" by (simp add: pow2_def)
  finally show "\<bar>(of_int n :: rat)\<bar> < pow2 1024" .
qed

section \<open>Properties of the scorer\<close>

lemma category_block_ge: "score \<le> category_block cs sc sd score"
  unfolding category_block_def
proof (induction cs arbitrary: score)
  case Nil
  show ?case by simp
next
  case (Cons c cs)
  have "score \<le> (if is_in c sc \<or> is_in c sd then score + 20 else score)" by simp
  also have "\<dots> \<le> fold (\<lambda>category s. if is_in category sc \<or> is_in category sd then s + 20 else s)
                     cs (if is_in c sc \<or> is_in c sd then score + 20 else score)"
    by (rule Cons.IH)
  finally show ?case by simp
qed

lemma price_block_ge: "score \<le> price_block st avg score"
  by (simp add: price_block_def Let_def split: option.splits)

lemma positioning_block_ge: "score \<le> positioning_block p sd score"
  by (simp add: positioning_block_def)

lemma shipping_block_ge: "score \<le> shipping_block st score"
  by (simp add: shipping_block_def Let_def)

lemma products_block_ge: "score \<le> products_block st score"
  by (simp add: products_block_def Let_def split: cell.splits)

lemma origin_block_ge: "score \<le> origin_block sd score"
  by (simp add: origin_block_def)

text \<open>
  C1. For every supplier record and every marketplace analysis the compatibility score
  is an integer between 0 and 100: each block only adds to the score, which starts at 0,
  and the result is capped at 100.
\<close>

theorem compatibility_score_bounds:
  "0 \<le> calculate_compatibility_score st m \<and> calculate_compatibility_score st m \<le> 100"
proof -
  let ?sc = "lower (str_get (Categories st))"
  let ?sd = "lower (str_get (Description st))"
  let ?s1 = "category_block (categories m) ?sc ?sd 0"
  let ?s2 = "price_block st (average_price (price_analysis m)) ?s1"
  let ?s3 = "positioning_block (positioning (brand_analysis m)) ?sd ?s2"
  let ?s4 = "shipping_block st ?s3"
  let ?s5 = "products_block st ?s4"
  let ?s6 = "origin_block ?sd ?s5"
  have "0 \<le> ?s1" by (rule category_block_ge)
  also have "?s1 \<le> ?s2" by (rule price_block_ge)
  also have "?s2 \<le> ?s3" by (rule positioning_block_ge)
  also have "?s3 \<le> ?s4" by (rule shipping_block_ge)
  also have "?s4 \<le> ?s5" by (rule products_block_ge)
  also have "?s5 \<le> ?s6" by (rule origin_block_ge)
  finally have "0 \<le> ?s6" .
  moreover have "calculate_compatibility_score st m = min 100 ?s6"
    by (simp add: calculate_compatibility_score_def Let_def)
  ultimately show ?thesis by simp
qed

lemmas text_eval =
  lower_def lower_char_def char_of_def bit_Suc_0_iff any_in_def
  re_search_num_def is_num_char_def is_digit_def py_float_def decimal_value_def digits_val_def
  digit_val_def

lemma round_double_120: "round_double 120 = Fin 120"
  using round_double_int [of 120] by simp

subsection \<open>The price term\<close>

lemma decimal_value_nonneg: "decimal_value s = Some x \<Longrightarrow> 0 \<le> x"
  by (auto simp add: decimal_value_def Let_def split: if_splits)

lemma py_float_range:
  assumes "py_float s = Some v"
  shows "(\<exists>r. v = Fin r \<and> 0 \<le> r) \<or> v = PInf"
proof -
  obtain x where x: "decimal_value s = Some x" and v: "v = round_double x"
    using assms by (auto simp add: py_float_def)
  have "0 \<le> x" using x by (rule decimal_value_nonneg)
  then show ?thesis unfolding v using round_double_nonneg [of x] by auto
qed

lemma py_float_not_positive:
  assumes "py_float s = Some v" and "\<not> flt (Fin 0) v"
  shows "v = Fin 0"
  using py_float_range [OF assms(1)] assms(2) by auto

lemma price_block_spec:
  assumes "is_double avg"
  shows "price_block st avg score = score + price_term_spec st avg"
proof (cases "is_in ''USD'' (str_get (Estimated_Sales st))")
  case False
  then show ?thesis by (simp add: price_block_def price_term_spec_def)
next
  case usd: True
  show ?thesis
  proof (cases "parsed_monthly_sales (str_get (Estimated_Sales st))")
    case None
    then show ?thesis
      using usd
      by (auto simp add: price_block_def price_term_spec_def parsed_monthly_sales_def
          split: option.splits)
  next
    case (Some sales)
    let ?d = "fabs (fsub (fdiv_int sales 100) avg)"
    have code: "price_block st avg score =
        (if flt (Fin 0) avg then
           (if flt (Fin 0) sales then
              (if flt ?d (fmul avg (Fin (1 / 2))) then score + 25
               else if flt ?d avg then score + 15 else score)
            else score)
         else score)"
      using usd Some
      by (auto simp add: price_block_def parsed_monthly_sales_def Let_def split: option.splits)
    have spec: "price_term_spec st avg =
        (if avg = Fin 0 then 0
         else if flt ?d (fmul (Fin (1 / 2)) avg) then 25
         else if flt ?d avg then 15 else 0)"
      using usd Some by (simp add: price_term_spec_def Let_def)
    show ?thesis
    proof (cases "flt (Fin 0) avg")
      case False
      then show ?thesis
        unfolding code spec using not_less_when_nonpositive [of avg "fsub (fdiv_int sales 100) avg"]
        by simp
    next
      case pos: True
      then have nz: "avg \<noteq> Fin 0" by auto
      show ?thesis
      proof (cases "flt (Fin 0) sales")
        case True
        then show ?thesis
          unfolding code spec using pos nz by (simp add: fmul_commute [of avg])
      next
        case False
        have "py_float (filter (\<lambda>c. c \<noteq> CHR '','')
                 (the (re_search_num (str_get (Estimated_Sales st))))) = Some sales"
          using Some by (auto simp add: parsed_monthly_sales_def split: option.splits)
        then have "sales = Fin 0" using False by (rule py_float_not_positive)
        then show ?thesis
          unfolding code spec using pos nz not_less_when_zero_sales [OF assms pos]
          by simp
      qed
    qed
  qed
qed

lemma price_block_zero: "price_block st (Fin 0) score = score"
  by (simp add: price_block_def)

text \<open>
  C3. For a marketplace average that is a float, the price block adds exactly the term
  the specification describes, and it adds nothing when the average is 0.
\<close>

theorem price_term_as_specified:
  assumes "is_double avg"
  shows "price_block st avg score = score + price_term_spec st avg
       \<and> price_block st (Fin 0) score = score"
  using price_block_spec [OF assms] price_block_zero by simp

lemma is_double_100: "is_double (Fin 100)"
  using round_double_int [of 100] by (simp add: is_double_def)

lemma example_sales: "parsed_monthly_sales ''USD 12,000 per month'' = Some (Fin 12000)"
  using round_double_int [of 12000]
  by (simp add: parsed_monthly_sales_def text_eval)

lemma example_price_steps:
  "fdiv_int (Fin 12000) 100 = Fin 120"
  "fsub (Fin 120) (Fin 100) = Fin 20"
  "fmul (Fin (1 / 2)) (Fin 100) = Fin 50"
  using round_double_int [of 120] round_double_int [of 20] round_double_int [of 50]
  by (simp_all add: fdiv_int_def fsub_def fmul_def)

lemma example_price_term: "price_term_spec example_store (Fin 100) = 25"
  by (simp add: price_term_spec_def example_store_def example_sales example_price_steps)

text \<open>
  The estimated price 74.85 against the average 49.9: the float difference is just
  below the float half of the average, so the store earns 25.
\<close>

lemma threshold_average:
  "round_double (499 / 10) = Fin (7022800668930867 / 140737488355328)"
  using round_double_evalI [of 5 "499 / 10" 7022800668930867] by (simp add: pow2_def)

lemma threshold_sales: "parsed_monthly_sales ''USD 7,485 per month'' = Some (Fin 7485)"
  using round_double_int [of 7485]
  by (simp add: parsed_monthly_sales_def text_eval)

lemma threshold_steps:
  "fdiv_int (Fin 7485) 100 = Fin (2633550250849075 / 35184372088832)"
  "fsub (Fin (2633550250849075 / 35184372088832)) (Fin (7022800668930867 / 140737488355328))
     = Fin (3511400334465433 / 140737488355328)"
  "fmul (Fin (1 / 2)) (Fin (7022800668930867 / 140737488355328))
     = Fin (7022800668930867 / 281474976710656)"
  using round_double_evalI [of 6 "7485 / 100" 5267100501698150]
    round_double_exact [of "3511400334465433 / 140737488355328" 3511400334465433 "- 47"]
    round_double_exact [of "7022800668930867 / 281474976710656" 7022800668930867 "- 48"]
  by (simp_all add: fdiv_int_def fsub_def fmul_def pow2_def)

lemma threshold_price_term:
  "price_term_spec threshold_store (round_double (499 / 10)) = 25"
  unfolding threshold_average
  by (simp add: price_term_spec_def threshold_store_def threshold_sales threshold_steps)

theorem price_term_as_specified_witness:
  "is_double (Fin 100)
   \<and> price_block example_store (Fin 100) 0 = 25
   \<and> price_block example_store (Fin 0) 0 = 0
   \<and> is_double (round_double (499 / 10))
   \<and> price_block threshold_store (round_double (499 / 10)) 0 = 25"
proof -
  have d: "is_double (round_double (499 / 10))"
    unfolding threshold_average
    using round_double_exact [of "7022800668930867 / 140737488355328" 7022800668930867 "- 47"]
    by (simp add: is_double_def pow2_def)
  show ?thesis
    using price_term_as_specified [OF is_double_100, of example_store 0]
      price_term_as_specified [OF d, of threshold_store 0] is_double_100 d
    by (simp add: example_price_term threshold_price_term)
qed

subsection \<open>The terms add up\<close>

lemma category_block_sum:
  "category_block cs sc sd score =
     score + sum_list (map (\<lambda>c. if is_in c sc \<or> is_in c sd then 20 else 0) cs)"
  unfolding category_block_def
  by (induction cs arbitrary: score) simp_all

lemma category_block_remove1:
  assumes "c \<in> set cs"
  shows "category_block cs sc sd 0 =
           category_block [c] sc sd 0 + category_block (remove1 c cs) sc sd 0"
  using assms by (simp add: category_block_sum sum_list_map_remove1)

lemma positioning_block_add:
  "positioning_block p sd score = score + positioning_block p sd 0"
  by (simp add: positioning_block_def)

lemma shipping_block_add: "shipping_block st score = score + shipping_block st 0"
  by (simp add: shipping_block_def Let_def)

lemma products_block_add: "products_block st score = score + products_block st 0"
  by (simp add: products_block_def Let_def split: cell.splits)

lemma origin_block_add: "origin_block sd score = score + origin_block sd 0"
  by (simp add: origin_block_def)

lemma price_block_add: "price_block st avg score = score + price_block st avg 0"
  by (simp add: price_block_def Let_def split: option.splits)

lemma score_as_sum:
  "calculate_compatibility_score st m =
     min 100 (category_block (categories m) (lower (str_get (Categories st)))
                (lower (str_get (Description st))) 0
              + price_block st (average_price (price_analysis m)) 0
              + positioning_block (positioning (brand_analysis m))
                  (lower (str_get (Description st))) 0
              + shipping_block st 0
              + products_block st 0
              + origin_block (lower (str_get (Description st))) 0)"
proof -
  let ?sd = "lower (str_get (Description st))"
  let ?s1 = "category_block (categories m) (lower (str_get (Categories st))) ?sd 0"
  let ?s2 = "price_block st (average_price (price_analysis m)) ?s1"
  let ?s3 = "positioning_block (positioning (brand_analysis m)) ?sd ?s2"
  let ?s4 = "shipping_block st ?s3"
  let ?s5 = "products_block st ?s4"
  have "calculate_compatibility_score st m = min 100 (origin_block ?sd ?s5)"
    by (simp add: calculate_compatibility_score_def Let_def)
  also have "origin_block ?sd ?s5 = ?s5 + origin_block ?sd 0" by (rule origin_block_add)
  also have "?s5 = ?s4 + products_block st 0" by (rule products_block_add)
  also have "?s4 = ?s3 + shipping_block st 0" by (rule shipping_block_add)
  also have "?s3 = ?s2 + positioning_block (positioning (brand_analysis m)) ?sd 0"
    by (rule positioning_block_add)
  also have "?s2 = ?s1 + price_block st (average_price (price_analysis m)) 0"
    by (rule price_block_add)
  finally show ?thesis by (simp add: add_ac)
qed

subsection \<open>The example store\<close>

lemma example_description:
  "lower (str_get (Description example_store)) = ''affordable tokyo electronics, budget-friendly''"
  by (simp add: example_store_def text_eval)

lemma example_categories: "lower (str_get (Categories example_store)) = ''electronics''"
  by (simp add: example_store_def text_eval)

lemma example_category_block:
  "category_block (categories example_analysis) (lower (str_get (Categories example_store)))
     (lower (str_get (Description example_store))) 0 = 20"
  unfolding example_categories by (simp add: example_analysis_def category_block_def)

lemma example_price_block:
  "price_block example_store (average_price (price_analysis example_analysis)) 0 = 25"
  using price_block_spec [OF is_double_100, of example_store 0]
  by (simp add: example_analysis_def example_price_term)

lemma example_positioning_block:
  "positioning_block (positioning (brand_analysis example_analysis))
     (lower (str_get (Description example_store))) 0 = 15"
  unfolding example_description by (simp add: example_analysis_def positioning_block_def any_in_def)

lemma example_shipping_block: "shipping_block example_store 0 = 10"
  by (simp add: shipping_block_def example_store_def)

lemma example_products_block: "products_block example_store 0 = 5"
  by (simp add: products_block_def example_store_def)

lemma example_origin_block:
  "origin_block (lower (str_get (Description example_store))) 0 = 15"
  unfolding example_description origin_block_def
  by (simp add: text_eval)

lemma example_score: "calculate_compatibility_score example_store example_analysis = 90"
  unfolding score_as_sum example_category_block example_price_block example_positioning_block
    example_shipping_block example_products_block example_origin_block
  by simp

theorem compatibility_score_bounds_witness:
  "calculate_compatibility_score example_store example_analysis = 90
   \<and> 0 \<le> calculate_compatibility_score example_store example_analysis
   \<and> calculate_compatibility_score example_store example_analysis \<le> 100"
  using compatibility_score_bounds [of example_store example_analysis]
  by (simp add: example_score)

subsection \<open>The scoring scenario\<close>

lemma scenario_description_lower:
  "lower ''Affordable Tokyo electronics, budget-friendly''
     = ''affordable tokyo electronics, budget-friendly''"
  by (simp add: text_eval)

lemma scenario_description_lower_again:
  "lower ''affordable tokyo electronics, budget-friendly''
     = ''affordable tokyo electronics, budget-friendly''"
  by (simp add: text_eval)

lemma scenario_category: "category_block [''electronics''] sc
     ''affordable tokyo electronics, budget-friendly'' 0 = 20"
  by (simp add: category_block_def)

lemma scenario_positioning:
  "positioning_block ''value'' ''affordable tokyo electronics, budget-friendly'' 0 = 15"
  by (simp add: positioning_block_def any_in_def)

lemma scenario_origin:
  "origin_block ''affordable tokyo electronics, budget-friendly'' 0 = 15"
  by (simp add: origin_block_def scenario_description_lower_again) (simp add: any_in_def)

text \<open>
  C6. A supplier described as "Affordable Tokyo electronics, budget-friendly", scored
  against a marketplace positioned as "value" whose categories include "electronics",
  gets 20 for the category match, 15 for the positioning match and 15 for the origin:
  50, to which the remaining marketplace categories and the price, shipping and scale
  terms are added before the cap at 100.
\<close>

theorem scenario_score_contributions:
  assumes "Description st = Val ''Affordable Tokyo electronics, budget-friendly''"
    and "positioning (brand_analysis m) = ''value''"
    and "''electronics'' \<in> set (categories m)"
  shows "category_block [''electronics''] (lower (str_get (Categories st)))
           (lower (str_get (Description st))) 0 = 20
       \<and> positioning_block (positioning (brand_analysis m))
           (lower (str_get (Description st))) 0 = 15
       \<and> origin_block (lower (str_get (Description st))) 0 = 15
       \<and> calculate_compatibility_score st m =
           min 100 (50
             + category_block (remove1 ''electronics'' (categories m))
                 (lower (str_get (Categories st))) (lower (str_get (Description st))) 0
             + price_block st (average_price (price_analysis m)) 0
             + shipping_block st 0
             + products_block st 0)"
proof -
  let ?sc = "lower (str_get (Categories st))"
  let ?sd = "lower (str_get (Description st))"
  have sd: "?sd = ''affordable tokyo electronics, budget-friendly''"
    using assms(1) by (simp add: scenario_description_lower)
  have cat: "category_block [''electronics''] ?sc ?sd 0 = 20"
    unfolding sd by (rule scenario_category)
  have pos: "positioning_block (positioning (brand_analysis m)) ?sd 0 = 15"
    unfolding sd assms(2) by (rule scenario_positioning)
  have orig: "origin_block ?sd 0 = 15"
    unfolding sd by (rule scenario_origin)
  have split: "category_block (categories m) ?sc ?sd 0 =
      category_block [''electronics''] ?sc ?sd 0
      + category_block (remove1 ''electronics'' (categories m)) ?sc ?sd 0"
    using assms(3) by (rule category_block_remove1)
  have "calculate_compatibility_score st m =
      min 100 (category_block (categories m) ?sc ?sd 0
               + price_block st (average_price (price_analysis m)) 0
               + positioning_block (positioning (brand_analysis m)) ?sd 0
               + shipping_block st 0 + products_block st 0 + origin_block ?sd 0)"
    by (rule score_as_sum)
  also have "\<dots> = min 100 (50
             + category_block (remove1 ''electronics'' (categories m)) ?sc ?sd 0
             + price_block st (average_price (price_analysis m)) 0
             + shipping_block st 0 + products_block st 0)"
    unfolding split cat pos orig by (simp add: add_ac)
  finally show ?thesis using cat pos orig by simp
qed

theorem scenario_score_contributions_witness:
  "Description example_store = Val ''Affordable Tokyo electronics, budget-friendly''
   \<and> positioning (brand_analysis example_analysis) = ''value''
   \<and> ''electronics'' \<in> set (categories example_analysis)
   \<and> calculate_compatibility_score example_store example_analysis
       = min 100 (50 + 0 + 25 + 10 + 5)"
proof -
  have d: "Description example_store = Val ''Affordable Tokyo electronics, budget-friendly''"
    by (simp add: example_store_def)
  have p: "positioning (brand_analysis example_analysis) = ''value''"
    by (simp add: example_analysis_def)
  have c: "''electronics'' \<in> set (categories example_analysis)"
    by (simp add: example_analysis_def)
  have rest: "category_block (remove1 ''electronics'' (categories example_analysis))
                (lower (str_get (Categories example_store)))
                (lower (str_get (Description example_store))) 0 = 0"
    by (simp add: example_analysis_def category_block_def)
  note price = example_price_block and ship = example_shipping_block
    and prod = example_products_block
  show ?thesis
    using scenario_score_contributions [OF d p c] d p c
    unfolding rest price ship prod by simp
qed

section \<open>Properties of the ranking\<close>

lemma scoring_loop_eq:
  "scoring_loop m rows acc =
     acc @ map (\<lambda>(index, st). make_store_info index st (calculate_compatibility_score st m))
             (filter (\<lambda>(index, st). 30 < calculate_compatibility_score st m) rows)"
  by (induction m rows acc rule: scoring_loop.induct) (simp_all add: Let_def)

lemma generate_eq:
  "generate_supplier_recommendations n m (Some df) =
     slice_to n (sort_reverse compatibility_score (qualifying m df))"
proof (cases "df = []")
  case True
  then show ?thesis
    by (simp add: generate_supplier_recommendations_def qualifying_def iterrows_def
        sort_reverse_def slice_to_def)
next
  case False
  then show ?thesis
    by (simp add: generate_supplier_recommendations_def qualifying_def scoring_loop_eq)
qed

lemma qualifying_scores: "s \<in> set (qualifying m df) \<Longrightarrow> 30 < compatibility_score s"
  by (auto simp add: qualifying_def make_store_info_def)

lemma mset_take_subset: "mset (take k xs) \<subseteq># mset xs"
proof -
  have "mset xs = mset (take k xs) + mset (drop k xs)"
    by (metis append_take_drop_id mset_append)
  then show ?thesis by simp
qed

lemma filter_take_prefix: "prefix (filter P (take k xs)) (filter P xs)"
proof -
  have "filter P xs = filter P (take k xs) @ filter P (drop k xs)"
    by (metis append_take_drop_id filter_append)
  then show ?thesis by (rule prefixI)
qed

lemma sort_reverse_sorted: "sorted (map (\<lambda>x. - key x) (sort_reverse key xs))"
  unfolding sort_reverse_def by (rule sorted_sort_key)

lemma sort_reverse_stable:
  "filter (\<lambda>x. key x = k) (sort_reverse key xs) = filter (\<lambda>x. key x = k) xs"
proof -
  have "(\<lambda>x. key x = k) = (\<lambda>x. - key x = - k)" by auto
  then show ?thesis
    unfolding sort_reverse_def by (simp only: sort_key_stable)
qed

lemma sort_reverse_mset: "mset (sort_reverse key xs) = mset xs"
  unfolding sort_reverse_def by simp

lemma sorted_neg_iff:
  fixes key :: "'a \<Rightarrow> int"
  shows "sorted (map (\<lambda>x. - key x) xs) = sorted_wrt (\<lambda>a b. key b \<le> key a) xs"
proof -
  have "(\<lambda>a b. - key a \<le> - key b) = (\<lambda>a b. key b \<le> key a)"
    by (intro ext) simp
  then show ?thesis by (simp add: sorted_map)
qed

lemma generate_take:
  "\<exists>k. generate_supplier_recommendations n m (Some df)
         = take k (sort_reverse compatibility_score (qualifying m df))"
  unfolding generate_eq slice_to_def by (cases "0 \<le> n") auto

text \<open>
  C2, as amended. The returned list is the slice \<open>[:max_suppliers]\<close> of the stable
  descending sort of the report rows of the input records scoring above 30. For every
  \<open>max_suppliers\<close> it is a prefix of that sort, so it holds only such rows, its scores
  are non-increasing and entries with equal scores keep their input order. For a
  non-negative \<open>max_suppliers\<close> it is the first \<open>max_suppliers\<close> entries of the sort,
  its length is at most \<open>max_suppliers\<close>, and it holds all the rows when there are at
  most \<open>max_suppliers\<close> of them.
\<close>

theorem recommendations_ranked:
  "generate_supplier_recommendations max_suppliers m (Some df)
     = slice_to max_suppliers (sort_reverse compatibility_score (qualifying m df))
   \<and> mset (sort_reverse compatibility_score (qualifying m df)) = mset (qualifying m df)
   \<and> sorted_wrt (\<lambda>a b. compatibility_score b \<le> compatibility_score a)
        (sort_reverse compatibility_score (qualifying m df))
   \<and> (\<forall>k. filter (\<lambda>s. compatibility_score s = k)
             (sort_reverse compatibility_score (qualifying m df))
           = filter (\<lambda>s. compatibility_score s = k) (qualifying m df))
   \<and> prefix (generate_supplier_recommendations max_suppliers m (Some df))
        (sort_reverse compatibility_score (qualifying m df))
   \<and> mset (generate_supplier_recommendations max_suppliers m (Some df))
        \<subseteq># mset (qualifying m df)
   \<and> (\<forall>s \<in> set (generate_supplier_recommendations max_suppliers m (Some df)).
        30 < compatibility_score s)
   \<and> sorted_wrt (\<lambda>a b. compatibility_score b \<le> compatibility_score a)
        (generate_supplier_recommendations max_suppliers m (Some df))
   \<and> (\<forall>k. prefix
        (filter (\<lambda>s. compatibility_score s = k)
           (generate_supplier_recommendations max_suppliers m (Some df)))
        (filter (\<lambda>s. compatibility_score s = k) (qualifying m df)))
   \<and> (0 \<le> max_suppliers \<longrightarrow>
        generate_supplier_recommendations max_suppliers m (Some df)
          = take (nat max_suppliers) (sort_reverse compatibility_score (qualifying m df))
        \<and> int (length (generate_supplier_recommendations max_suppliers m (Some df)))
            \<le> max_suppliers
        \<and> (int (length (qualifying m df)) \<le> max_suppliers \<longrightarrow>
             mset (generate_supplier_recommendations max_suppliers m (Some df))
               = mset (qualifying m df)))"
proof -
  let ?q = "qualifying m df"
  let ?sorted = "sort_reverse compatibility_score ?q"
  let ?out = "generate_supplier_recommendations max_suppliers m (Some df)"
  let ?desc = "\<lambda>a b. compatibility_score b \<le> compatibility_score a"
  have slice: "?out = slice_to max_suppliers ?sorted" by (rule generate_eq)
  obtain k where out: "?out = take k ?sorted" using generate_take by blast
  have perm: "mset ?sorted = mset ?q" by (rule sort_reverse_mset)
  have "sorted (map (\<lambda>x. - compatibility_score x) ?sorted)" by (rule sort_reverse_sorted)
  then have sorted: "sorted_wrt ?desc ?sorted" by (simp only: sorted_neg_iff)
  have stable: "\<forall>k. filter (\<lambda>s. compatibility_score s = k) ?sorted
                    = filter (\<lambda>s. compatibility_score s = k) ?q"
    by (simp only: sort_reverse_stable) simp
  have pre: "prefix ?out ?sorted" unfolding out by (rule take_is_prefix)
  have sub: "mset ?out \<subseteq># mset ?q"
    unfolding out using mset_take_subset [of k ?sorted] by (simp add: sort_reverse_mset)
  have above: "\<forall>s \<in> set ?out. 30 < compatibility_score s"
  proof
    fix s assume "s \<in> set ?out"
    then have "s \<in># mset ?q" using sub by (metis mset_subset_eqD set_mset_mset)
    then show "30 < compatibility_score s" by (simp add: qualifying_scores)
  qed
  have desc: "sorted_wrt ?desc ?out"
    unfolding out using sorted by (rule sorted_wrt_take)
  have ties: "\<forall>k. prefix (filter (\<lambda>s. compatibility_score s = k) ?out)
                        (filter (\<lambda>s. compatibility_score s = k) ?q)"
  proof
    fix j
    have "prefix (filter (\<lambda>s. compatibility_score s = j) ?out)
            (filter (\<lambda>s. compatibility_score s = j) ?sorted)"
      unfolding out by (rule filter_take_prefix)
    then show "prefix (filter (\<lambda>s. compatibility_score s = j) ?out)
                 (filter (\<lambda>s. compatibility_score s = j) ?q)"
      by (simp only: sort_reverse_stable)
  qed
  have nonneg: "0 \<le> max_suppliers \<longrightarrow>
      ?out = take (nat max_suppliers) ?sorted
      \<and> int (length ?out) \<le> max_suppliers
      \<and> (int (length ?q) \<le> max_suppliers \<longrightarrow> mset ?out = mset ?q)"
  proof
    assume n: "0 \<le> max_suppliers"
    have t: "?out = take (nat max_suppliers) ?sorted"
      using n by (simp add: slice slice_to_def)
    have len: "int (length ?out) \<le> max_suppliers"
      unfolding t using n by simp
    have all: "int (length ?q) \<le> max_suppliers \<longrightarrow> mset ?out = mset ?q"
    proof
      assume "int (length ?q) \<le> max_suppliers"
      then have "length ?sorted \<le> nat max_suppliers"
        by (simp add: sort_reverse_def)
      then have "?out = ?sorted" unfolding t by simp
      then show "mset ?out = mset ?q" by (simp add: sort_reverse_mset)
    qed
    from t len all show "?out = take (nat max_suppliers) ?sorted
      \<and> int (length ?out) \<le> max_suppliers
      \<and> (int (length ?q) \<le> max_suppliers \<longrightarrow> mset ?out = mset ?q)"
      by blast
  qed
  from slice perm sorted stable pre sub above desc ties nonneg show ?thesis by blast
qed

subsection \<open>The ranking on example tables\<close>

lemma blank_score: "calculate_compatibility_score blank_store example_analysis = 0"
  unfolding score_as_sum
  by (simp add: blank_store_def example_analysis_def category_block_def price_block_def
      positioning_block_def shipping_block_def products_block_def origin_block_def text_eval)

lemma make_store_info_score: "compatibility_score (make_store_info i st sc) = sc"
  by (simp add: make_store_info_def)

lemma iterrows2: "iterrows [a, b] = [(0, a), (1, b)]"
  by (simp add: iterrows_def upt_rec)

lemma iterrows3: "iterrows [a, b, c] = [(0, a), (1, b), (2, c)]"
  by (simp add: iterrows_def upt_rec)

lemma qualifying3:
  "qualifying example_analysis [example_store, blank_store, example_store]
     = [make_store_info 0 example_store 90, make_store_info 2 example_store 90]"
  by (simp add: qualifying_def iterrows3 example_score blank_score)

lemma qualifying2:
  "qualifying example_analysis [example_store, example_store]
     = [make_store_info 0 example_store 90, make_store_info 1 example_store 90]"
  by (simp add: qualifying_def iterrows2 example_score)

lemma generate_example3:
  "generate_supplier_recommendations 1 example_analysis
     (Some [example_store, blank_store, example_store]) = [make_store_info 0 example_store 90]"
  by (simp add: generate_eq qualifying3 sort_reverse_def slice_to_def make_store_info_score)

lemma sorted_example3:
  "sort_reverse compatibility_score
     (qualifying example_analysis [example_store, blank_store, example_store])
     = [make_store_info 0 example_store 90, make_store_info 2 example_store 90]"
  by (simp add: qualifying3 sort_reverse_def make_store_info_score)

lemma generate_example2:
  "generate_supplier_recommendations (- 1) example_analysis
     (Some [example_store, example_store]) = [make_store_info 0 example_store 90]"
  by (simp add: generate_eq qualifying2 sort_reverse_def slice_to_def make_store_info_score)

lemma generate_example2_one:
  "generate_supplier_recommendations 1 example_analysis
     (Some [example_store, example_store]) = [make_store_info 0 example_store 90]"
  by (simp add: generate_eq qualifying2 sort_reverse_def slice_to_def make_store_info_score)

lemma example_store_name: "store_name (make_store_info 0 example_store 90) = ''tokyo-gadgets''"
  by (simp add: make_store_info_def example_store_def)

theorem recommendations_ranked_witness:
  "(0::int) \<le> 1
   \<and> generate_supplier_recommendations 1 example_analysis
        (Some [example_store, blank_store, example_store])
       = take (nat 1) (sort_reverse compatibility_score
           (qualifying example_analysis [example_store, blank_store, example_store]))
   \<and> map store_name (generate_supplier_recommendations 1 example_analysis
         (Some [example_store, blank_store, example_store])) = [''tokyo-gadgets'']
   \<and> map compatibility_score (generate_supplier_recommendations 1 example_analysis
         (Some [example_store, blank_store, example_store])) = [90]
   \<and> int (length (generate_supplier_recommendations 1 example_analysis
         (Some [example_store, blank_store, example_store]))) \<le> 1"
proof -
  let ?out = "generate_supplier_recommendations 1 example_analysis
      (Some [example_store, blank_store, example_store])"
  let ?sorted = "sort_reverse compatibility_score
      (qualifying example_analysis [example_store, blank_store, example_store])"
  have z: "(0::int) \<le> 1" by simp
  have "0 \<le> (1::int) \<longrightarrow> ?out = take (nat 1) ?sorted \<and> int (length ?out) \<le> 1
      \<and> (int (length (qualifying example_analysis
            [example_store, blank_store, example_store])) \<le> 1 \<longrightarrow>
          mset ?out = mset (qualifying example_analysis
            [example_store, blank_store, example_store]))"
    using recommendations_ranked [of 1 example_analysis
      "[example_store, blank_store, example_store]"] by blast
  with z have t: "?out = take (nat 1) ?sorted" and l: "int (length ?out) \<le> 1"
    by blast+
  have n: "map store_name ?out = [''tokyo-gadgets'']"
    by (simp add: generate_example3 example_store_name)
  have c: "map compatibility_score ?out = [90]"
    by (simp add: generate_example3 make_store_info_score)
  from z t n c l show ?thesis by blast
qed

text \<open>
  C2 as stated fails. Two records both score 90. With \<open>max_suppliers = 1\<close> one entry
  is returned, so not every record scoring above 30 is in the list; with
  \<open>max_suppliers = -1\<close> the slice drops the last entry, and the one entry returned
  is more than \<open>max_suppliers\<close>.
\<close>

theorem recommendations_counterexample:
  "30 < calculate_compatibility_score example_store example_analysis
   \<and> length (qualifying example_analysis [example_store, example_store]) = 2
   \<and> length (generate_supplier_recommendations 1 example_analysis
        (Some [example_store, example_store])) = 1
   \<and> length (generate_supplier_recommendations (- 1) example_analysis
        (Some [example_store, example_store])) = 1
   \<and> \<not> int (length (generate_supplier_recommendations (- 1) example_analysis
        (Some [example_store, example_store]))) \<le> - 1"
  by (simp add: generate_example2 generate_example2_one qualifying2 example_score)

section \<open>Properties of the feature extractor\<close>

subsection \<open>Price statistics\<close>

lemma py_float_Nil: "py_float [] = None"
  by (simp add: py_float_def decimal_value_def)

lemma map_filter_app: "List.map_filter f (xs @ ys) = List.map_filter f xs @ List.map_filter f ys"
  by (simp add: List.map_filter_def)

lemma add_price_eq:
  "add_price m acc =
     acc @ filter (\<lambda>v. fle (Fin 1) v \<and> fle v (Fin 50000)) (List.map_filter numeric_of_match [m])"
  by (simp add: add_price_def numeric_of_match_def List.map_filter_simps py_float_Nil Let_def
      split: option.splits)

lemma fold_add_price:
  "fold add_price ms acc =
     acc @ filter (\<lambda>v. fle (Fin 1) v \<and> fle v (Fin 50000)) (List.map_filter numeric_of_match ms)"
proof (induction ms arbitrary: acc)
  case Nil
  show ?case by (simp add: List.map_filter_simps)
next
  case (Cons m ms)
  have "fold add_price (m # ms) acc = fold add_price ms (add_price m acc)" by simp
  also have "\<dots> = add_price m acc
      @ filter (\<lambda>v. fle (Fin 1) v \<and> fle v (Fin 50000)) (List.map_filter numeric_of_match ms)"
    by (rule Cons.IH)
  also have "\<dots> = acc @ filter (\<lambda>v. fle (Fin 1) v \<and> fle v (Fin 50000))
      (List.map_filter numeric_of_match ([m] @ ms))"
    unfolding add_price_eq map_filter_app by simp
  finally show ?case by simp
qed

lemma fold_patterns:
  "fold (\<lambda>(sign, decimals) prices. fold add_price (findall_price sign decimals t) prices) ps acc =
     acc @ filter (\<lambda>v. fle (Fin 1) v \<and> fle v (Fin 50000))
       (List.map_filter numeric_of_match
          (concat (map (\<lambda>(sign, decimals). findall_price sign decimals t) ps)))"
proof (induction ps arbitrary: acc)
  case Nil
  show ?case by (simp add: List.map_filter_simps)
next
  case (Cons p ps)
  let ?F = "\<lambda>(sign, decimals) prices. fold add_price (findall_price sign decimals t) prices"
  let ?G = "\<lambda>(sign, decimals). findall_price sign decimals t"
  have step: "?F p acc = acc @ filter (\<lambda>v. fle (Fin 1) v \<and> fle v (Fin 50000))
      (List.map_filter numeric_of_match (?G p))"
    by (cases p) (simp add: fold_add_price)
  have "fold ?F (p # ps) acc = fold ?F ps (?F p acc)" by simp
  also have "\<dots> = ?F p acc @ filter (\<lambda>v. fle (Fin 1) v \<and> fle v (Fin 50000))
      (List.map_filter numeric_of_match (concat (map ?G ps)))"
    by (rule Cons.IH)
  also have "\<dots> = acc @ filter (\<lambda>v. fle (Fin 1) v \<and> fle v (Fin 50000))
      (List.map_filter numeric_of_match (concat (map ?G (p # ps))))"
    unfolding step by (simp add: map_filter_app)
  finally show ?case .
qed

lemma collect_prices_eq: "collect_prices t = surviving_values t"
  by (simp add: collect_prices_def surviving_values_def matched_values_def fold_patterns)

lemma round2_grid:
  "\<exists>k::int. round2 (Fin a) = round_double (of_int k / 100) \<and> \<bar>of_int k / 100 - a\<bar> \<le> 1 / 200"
proof -
  have "\<bar>of_int (round_half_even (a * 100)) - a * 100\<bar> \<le> 1 / 2"
    by (rule round_half_even_close)
  then have "\<bar>of_int (round_half_even (a * 100)) / 100 - a\<bar> \<le> 1 / 200"
    by (simp add: abs_le_iff field_simps)
  then show ?thesis unfolding round2_def by auto
qed

lemma findall_dollar_above:
  "findall_price (Chr CHR ''$'') True (utext ''$50000.01'') = [utext ''$50000.01'']"
  by (simp add: utext_def text_eval)

lemma findall_dollar_below:
  "findall_price (Chr CHR ''$'') True (utext ''$49999.99'') = [utext ''$49999.99'']"
  by (simp add: utext_def text_eval)

lemma findall_other_signs:
  "findall_price Euro True (utext ''$50000.01'') = []"
  "findall_price (Chr (char_of (163 :: nat))) True (utext ''$50000.01'') = []"
  "findall_price (Chr (char_of (165 :: nat))) False (utext ''$50000.01'') = []"
  "findall_price Rupee True (utext ''$50000.01'') = []"
  "findall_price Euro True (utext ''$49999.99'') = []"
  "findall_price (Chr (char_of (163 :: nat))) True (utext ''$49999.99'') = []"
  "findall_price (Chr (char_of (165 :: nat))) False (utext ''$49999.99'') = []"
  "findall_price Rupee True (utext ''$49999.99'') = []"
  by (simp_all add: utext_def text_eval)

lemma numeric_dollar:
  "numeric_chars (utext ''$50000.01'') = ''50000.01''"
  "numeric_chars (utext ''$49999.99'') = ''49999.99''"
  by (simp_all add: utext_def text_eval)

lemma float_above:
  "py_float ''50000.01'' = Some (Fin (6871949047989535 / 137438953472))"
  using round_double_evalI [of 15 "5000001 / 100" 6871949047989535]
  by (simp add: text_eval pow2_def)

lemma float_below:
  "py_float ''49999.99'' = Some (Fin (6871946299210465 / 137438953472))"
  using round_double_evalI [of 15 "4999999 / 100" 6871946299210465]
  by (simp add: text_eval pow2_def)

lemma collect_dollar_above: "collect_prices (utext ''$50000.01'') = []"
  by (simp add: collect_prices_def price_patterns_def findall_dollar_above findall_other_signs
      add_price_def numeric_dollar float_above fle_def)

lemma collect_dollar_below:
  "collect_prices (utext ''$49999.99'') = [Fin (6871946299210465 / 137438953472)]"
  by (simp add: collect_prices_def price_patterns_def findall_dollar_below findall_other_signs
      add_price_def numeric_dollar float_below fle_def)

text \<open>The euro and the rupee patterns match their signs.\<close>

lemma collect_euro: "collect_prices (Euro # utext ''12.50'') = [Fin (25 / 2)]"
proof -
  define t where "t = Euro # utext ''12.50''"
  have f: "findall_price (Chr CHR ''$'') True t = []"
    "findall_price Euro True t = [t]"
    "findall_price (Chr (char_of (163 :: nat))) True t = []"
    "findall_price (Chr (char_of (165 :: nat))) False t = []"
    "findall_price Rupee True t = []"
    unfolding t_def by (simp_all add: utext_def text_eval)
  have n: "numeric_chars t = ''12.50''"
    unfolding t_def by (simp add: utext_def text_eval)
  have v: "py_float ''12.50'' = Some (Fin (25 / 2))"
    using round_double_exact [of "25 / 2" 25 "- 1"] by (simp add: text_eval pow2_def)
  have "collect_prices t = [Fin (25 / 2)]"
    by (simp add: collect_prices_def price_patterns_def f add_price_def n v fle_def)
  then show ?thesis unfolding t_def .
qed

lemma collect_rupee: "collect_prices (Rupee # utext ''999'') = [Fin 999]"
proof -
  define t where "t = Rupee # utext ''999''"
  have f: "findall_price (Chr CHR ''$'') True t = []"
    "findall_price Euro True t = []"
    "findall_price (Chr (char_of (163 :: nat))) True t = []"
    "findall_price (Chr (char_of (165 :: nat))) False t = []"
    "findall_price Rupee True t = [t]"
    unfolding t_def by (simp_all add: utext_def text_eval)
  have n: "numeric_chars t = ''999''"
    unfolding t_def by (simp add: utext_def text_eval)
  have v: "py_float ''999'' = Some (Fin 999)"
    using round_double_int [of 999] by (simp add: text_eval)
  have "collect_prices t = [Fin 999]"
    by (simp add: collect_prices_def price_patterns_def f add_price_def n v fle_def)
  then show ?thesis unfolding t_def .
qed

lemma analyze_prices_empty:
  "collect_prices (get_text soup) = [] \<Longrightarrow>
     analyze_prices_with float_sum soup =
       \<lparr>average_price = Fin 0, min_price = Fin 0, max_price = Fin 0, price_count = 0,
        currency_detected = ''USD''\<rparr>"
  by (simp add: analyze_prices_with_def)

lemma analyze_prices_nonempty:
  "collect_prices (get_text soup) \<noteq> [] \<Longrightarrow>
     average_price (analyze_prices_with float_sum soup) =
       round2 (fdiv_int (float_sum (collect_prices (get_text soup)))
                 (length (collect_prices (get_text soup))))
     \<and> min_price (analyze_prices_with float_sum soup)
         = round2 (list_min (collect_prices (get_text soup)))
     \<and> max_price (analyze_prices_with float_sum soup)
         = round2 (list_max (collect_prices (get_text soup)))
     \<and> price_count (analyze_prices_with float_sum soup)
         = length (collect_prices (get_text soup))"
  by (simp add: analyze_prices_with_def Let_def)

text \<open>
  C4. The prices kept are exactly the numeric values of the matches that lie between 1
  and 50000, so "$50000.01" contributes nothing and "$49999.99" one value, the double
  nearest to 49999.99. When none is kept the statistics are all 0 with currency "USD";
  otherwise the count is the number of kept values and the average is their float sum,
  however \<open>sum\<close> adds them up, divided by their number and rounded by \<open>round(x, 2)\<close>:
  the double nearest to a multiple of 0.01 that is within 0.005 of the quotient.
\<close>

theorem price_statistics:
  "collect_prices (get_text soup) = surviving_values (get_text soup)
   \<and> collect_prices (utext ''$50000.01'') = []
   \<and> collect_prices (utext ''$49999.99'') = [Fin (6871946299210465 / 137438953472)]
   \<and> (surviving_values (get_text soup) = [] \<longrightarrow>
        analyze_prices_with float_sum soup =
          \<lparr>average_price = Fin 0, min_price = Fin 0, max_price = Fin 0, price_count = 0,
           currency_detected = ''USD''\<rparr>)
   \<and> (surviving_values (get_text soup) \<noteq> [] \<longrightarrow>
        price_count (analyze_prices_with float_sum soup)
          = length (surviving_values (get_text soup))
        \<and> average_price (analyze_prices_with float_sum soup) =
            round2 (fdiv_int (float_sum (surviving_values (get_text soup)))
                      (length (surviving_values (get_text soup))))
        \<and> (\<forall>a. fdiv_int (float_sum (surviving_values (get_text soup)))
                  (length (surviving_values (get_text soup))) = Fin a \<longrightarrow>
              (\<exists>k::int. average_price (analyze_prices_with float_sum soup)
                           = round_double (of_int k / 100)
                         \<and> \<bar>of_int k / 100 - a\<bar> \<le> 1 / 200)))
   \<and> analyze_prices soup = analyze_prices_with py_sum soup"
proof -
  let ?vs = "surviving_values (get_text soup)"
  let ?res = "analyze_prices_with float_sum soup"
  let ?mean = "fdiv_int (float_sum ?vs) (length ?vs)"
  have eq: "collect_prices (get_text soup) = ?vs" by (rule collect_prices_eq)
  have none: "?vs = [] \<longrightarrow> ?res =
      \<lparr>average_price = Fin 0, min_price = Fin 0, max_price = Fin 0, price_count = 0,
       currency_detected = ''USD''\<rparr>"
    using analyze_prices_empty [of soup float_sum] unfolding eq by simp
  have some: "?vs \<noteq> [] \<longrightarrow>
      price_count ?res = length ?vs
      \<and> average_price ?res = round2 ?mean
      \<and> (\<forall>a. ?mean = Fin a \<longrightarrow>
            (\<exists>k::int. average_price ?res = round_double (of_int k / 100)
                       \<and> \<bar>of_int k / 100 - a\<bar> \<le> 1 / 200))"
  proof
    assume "?vs \<noteq> []"
    then have avg: "average_price ?res = round2 ?mean"
      and cnt: "price_count ?res = length ?vs"
      using analyze_prices_nonempty [of soup float_sum] unfolding eq by simp_all
    have grid: "\<forall>a. ?mean = Fin a \<longrightarrow>
        (\<exists>k::int. average_price ?res = round_double (of_int k / 100)
                   \<and> \<bar>of_int k / 100 - a\<bar> \<le> 1 / 200)"
    proof (intro allI impI)
      fix a assume "?mean = Fin a"
      then have "average_price ?res = round2 (Fin a)" unfolding avg by simp
      then show "\<exists>k::int. average_price ?res = round_double (of_int k / 100)
                   \<and> \<bar>of_int k / 100 - a\<bar> \<le> 1 / 200"
        using round2_grid [of a] by simp
    qed
    from cnt avg grid show "price_count ?res = length ?vs
      \<and> average_price ?res = round2 ?mean
      \<and> (\<forall>a. ?mean = Fin a \<longrightarrow>
            (\<exists>k::int. average_price ?res = round_double (of_int k / 100)
                       \<and> \<bar>of_int k / 100 - a\<bar> \<le> 1 / 200))"
      by blast
  qed
  have py: "analyze_prices soup = analyze_prices_with py_sum soup"
    by (simp add: analyze_prices_def)
  from eq collect_dollar_above collect_dollar_below none some py show ?thesis by blast
qed

text \<open>
  The statistics of "$50000.01", of "$49999.99" and of "$1.00 $1.15", whose mean
  as a float lies just below 1.075 and is rounded to 1.07.
\<close>

lemma get_text_single: "get_text [Text t] = t"
  by (simp add: get_text_def)

lemma round2_below:
  "round2 (Fin (6871946299210465 / 137438953472)) = Fin (6871946299210465 / 137438953472)"
  using round_half_even_eqI [of "6871946299210465 / 137438953472 * 100" 4999999]
    round_double_evalI [of 15 "4999999 / 100" 6871946299210465]
  by (simp add: round2_def pow2_def)

lemma mean_below:
  "fdiv_int (py_sum [Fin (6871946299210465 / 137438953472)]) (Suc 0)
     = Fin (6871946299210465 / 137438953472)"
  using round_double_exact [of "6871946299210465 / 137438953472" 6871946299210465 "- 37"]
  by (simp add: py_sum_def fdiv_int_def pow2_def)

lemma collect_pair:
  "collect_prices (utext ''$1.00 $1.15'') = [Fin 1, Fin (2589569785738035 / 2251799813685248)]"
proof -
  define t where "t = utext ''$1.00 $1.15''"
  have f: "findall_price (Chr CHR ''$'') True t = [utext ''$1.00'', utext ''$1.15'']"
    "findall_price Euro True t = []"
    "findall_price (Chr (char_of (163 :: nat))) True t = []"
    "findall_price (Chr (char_of (165 :: nat))) False t = []"
    "findall_price Rupee True t = []"
    unfolding t_def by (simp_all add: utext_def text_eval)
  have n: "numeric_chars (utext ''$1.00'') = ''1.00''"
    "numeric_chars (utext ''$1.15'') = ''1.15''"
    by (simp_all add: utext_def text_eval)
  have v: "py_float ''1.00'' = Some (Fin 1)"
    "py_float ''1.15'' = Some (Fin (2589569785738035 / 2251799813685248))"
    using round_double_int [of 1] round_double_evalI [of 0 "23 / 20" 5179139571476070]
    by (simp_all add: text_eval pow2_def)
  have "collect_prices t = [Fin 1, Fin (2589569785738035 / 2251799813685248)]"
    by (simp add: collect_prices_def price_patterns_def f add_price_def n v fle_def)
  then show ?thesis unfolding t_def .
qed

lemma mean_pair:
  "fdiv_int (py_sum [Fin 1, Fin (2589569785738035 / 2251799813685248)]) (Suc (Suc 0))
     = Fin (4841369599423283 / 4503599627370496)"
  using round_double_int [of 1]
    round_double_exact [of "4841369599423283 / 2251799813685248" 4841369599423283 "- 51"]
    round_double_exact [of "4841369599423283 / 4503599627370496" 4841369599423283 "- 52"]
  by (simp add: py_sum_def fdiv_int_def pow2_def)

lemma round2_pair:
  "round2 (Fin (4841369599423283 / 4503599627370496))
     = Fin (4818851601286431 / 4503599627370496)"
  using round_half_even_eqI [of "4841369599423283 / 4503599627370496 * 100" 107]
    round_double_evalI [of 0 "107 / 100" 4818851601286431]
  by (simp add: round2_def pow2_def)

theorem price_statistics_witness:
  "surviving_values (utext ''$50000.01'') = []
   \<and> analyze_prices [Text (utext ''$50000.01'')] =
       \<lparr>average_price = Fin 0, min_price = Fin 0, max_price = Fin 0, price_count = 0,
        currency_detected = ''USD''\<rparr>
   \<and> surviving_values (utext ''$49999.99'') = [Fin (6871946299210465 / 137438953472)]
   \<and> price_count (analyze_prices [Text (utext ''$49999.99'')]) = 1
   \<and> average_price (analyze_prices [Text (utext ''$49999.99'')])
       = Fin (6871946299210465 / 137438953472)
   \<and> surviving_values (utext ''$1.00 $1.15'')
       = [Fin 1, Fin (2589569785738035 / 2251799813685248)]
   \<and> price_count (analyze_prices [Text (utext ''$1.00 $1.15'')]) = 2
   \<and> average_price (analyze_prices [Text (utext ''$1.00 $1.15'')])
       = Fin (4818851601286431 / 4503599627370496)"
proof -
  note a = price_statistics [of "[Text (utext ''$50000.01'')]" py_sum]
  note b = price_statistics [of "[Text (utext ''$49999.99'')]" py_sum]
  note c = price_statistics [of "[Text (utext ''$1.00 $1.15'')]" py_sum]
  have sa: "surviving_values (utext ''$50000.01'') = []"
    using a unfolding get_text_single by (simp only: collect_dollar_above [symmetric])
  have sb: "surviving_values (utext ''$49999.99'') = [Fin (6871946299210465 / 137438953472)]"
    using b unfolding get_text_single by (simp only: collect_dollar_below [symmetric])
  have sc: "surviving_values (utext ''$1.00 $1.15'')
      = [Fin 1, Fin (2589569785738035 / 2251799813685248)]"
    using c unfolding get_text_single by (simp only: collect_pair [symmetric])
  have ra: "analyze_prices [Text (utext ''$50000.01'')] =
       \<lparr>average_price = Fin 0, min_price = Fin 0, max_price = Fin 0, price_count = 0,
        currency_detected = ''USD''\<rparr>"
    using a unfolding get_text_single sa by simp
  have rb: "price_count (analyze_prices [Text (utext ''$49999.99'')]) = 1
      \<and> average_price (analyze_prices [Text (utext ''$49999.99'')])
          = Fin (6871946299210465 / 137438953472)"
    using b unfolding get_text_single sb by (simp add: mean_below round2_below)
  have rc: "price_count (analyze_prices [Text (utext ''$1.00 $1.15'')]) = 2
      \<and> average_price (analyze_prices [Text (utext ''$1.00 $1.15'')])
          = Fin (4818851601286431 / 4503599627370496)"
    using c unfolding get_text_single sc by (simp add: mean_pair round2_pair)
  from sa ra sb rb sc rc show ?thesis by blast
qed

subsection \<open>The page scenario\<close>

lemma utext_append: "utext a @ utext b = utext (a @ b)"
  by (simp add: utext_def)

lemma lower_text_utext: "lower_text (utext s) = utext (lower s)"
  by (simp add: lower_text_def utext_def lower_def)

lemma startswith_utext: "startswith (utext s) (utext p) = startswith s p"
  unfolding utext_def by (induction s p rule: startswith.induct) simp_all

lemma is_in_utext: "is_in (utext w) (utext s) = is_in w s"
proof (induction s)
  case Nil
  show ?case by (simp add: utext_def)
next
  case (Cons c cs)
  have "startswith (utext (c # cs)) (utext w) = startswith (c # cs) w"
    by (rule startswith_utext)
  then show ?case using Cons by (simp add: utext_def)
qed

lemma in_text_utext: "in_text w (utext s) = is_in w s"
  by (simp add: in_text_def is_in_utext)

lemma any_in_text_utext: "any_in_text ws (utext s) = any_in ws s"
  by (simp add: any_in_text_def any_in_def in_text_utext)

lemma scenario_text:
  "get_text scenario_page = utext ''Tokyo StylePremium Japanese fashion, $120 dresses''"
  by (simp add: scenario_page_def get_text_def utext_def)

lemma scenario_lower:
  "lower ''Tokyo StylePremium Japanese fashion, $120 dresses''
     = ''tokyo stylepremium japanese fashion, $120 dresses''"
  by (simp add: text_eval)

lemma scenario_text_lower:
  "lower_text (get_text scenario_page)
     = utext ''tokyo stylepremium japanese fashion, $120 dresses''"
  unfolding scenario_text lower_text_utext scenario_lower by (rule refl)

lemma scenario_categories: "extract_categories scenario_page = [''fashion'']"
  unfolding extract_categories_def scenario_text_lower Let_def category_keywords_def
    any_in_text_utext
  by (simp add: any_in_def)

lemma scenario_language: "detect_language scenario_page = ''ja''"
  by (simp add: detect_language_def scenario_page_def soup_find_def)

lemma scenario_brands:
  "analyze_brands scenario_page =
     \<lparr>positioning = ''premium'', luxury_score = 1, value_score = 0\<rparr>"
  unfolding analyze_brands_def scenario_text_lower Let_def in_text_utext
  by simp

lemma scenario_collect:
  "collect_prices (utext ''Tokyo StylePremium Japanese fashion, $120 dresses'') = [Fin 120]"
proof -
  define t where "t = utext ''Tokyo StylePremium Japanese fashion, $120 dresses''"
  have f: "findall_price (Chr CHR ''$'') True t = [utext ''$120'']"
    "findall_price Euro True t = []"
    "findall_price (Chr (char_of (163 :: nat))) True t = []"
    "findall_price (Chr (char_of (165 :: nat))) False t = []"
    "findall_price Rupee True t = []"
    unfolding t_def by (simp_all add: utext_def text_eval)
  have n: "numeric_chars (utext ''$120'') = ''120''"
    by (simp add: utext_def text_eval)
  have v: "py_float ''120'' = Some (Fin 120)"
    using round_double_int [of 120] by (simp add: text_eval)
  have "collect_prices t = [Fin 120]"
    by (simp add: collect_prices_def price_patterns_def f add_price_def n v fle_def)
  then show ?thesis unfolding t_def .
qed

lemma scenario_currency: "detect_currency scenario_page = ''USD''"
  unfolding detect_currency_def Let_def scenario_text_lower
  by (simp add: currency_indicators_def utext_def)

lemma scenario_mean: "fdiv_int (py_sum [Fin 120]) (Suc 0) = Fin 120"
  using round_double_int [of 120] by (simp add: py_sum_def fdiv_int_def)

lemma round2_120: "round2 (Fin 120) = Fin 120"
  using round_double_int [of 120] by (simp add: round2_def round_half_even_def)

lemma scenario_prices:
  "analyze_prices scenario_page =
     \<lparr>average_price = Fin 120, min_price = Fin 120, max_price = Fin 120, price_count = 1,
      currency_detected = ''USD''\<rparr>"
  unfolding analyze_prices_def analyze_prices_with_def Let_def scenario_text scenario_collect
  by (simp add: scenario_currency scenario_mean round2_120 list_min_def list_max_def)

lemma scenario_title: "extract_title scenario_page = utext ''Tokyo Style''"
  by (simp add: extract_title_def scenario_page_def soup_find_def strip_text_def utext_def
      is_space_def)

text \<open>
  C7. On the page with title "Tokyo Style", body text "Premium Japanese fashion, $120
  dresses" and \<open>lang="ja"\<close> on the root element, the extractor finds the category
  "fashion", the language "ja", the positioning "premium" with luxury score 1 and value
  score 0, and one price: average 120.0, count 1, currency "USD".
\<close>

theorem scenario_page_features:
  "extract_title scenario_page = utext ''Tokyo Style''
   \<and> ''fashion'' \<in> set (extract_categories scenario_page)
   \<and> detect_language scenario_page = ''ja''
   \<and> positioning (analyze_brands scenario_page) = ''premium''
   \<and> luxury_score (analyze_brands scenario_page) = 1
   \<and> value_score (analyze_brands scenario_page) = 0
   \<and> average_price (analyze_prices scenario_page) = Fin 120
   \<and> price_count (analyze_prices scenario_page) = 1
   \<and> currency_detected (analyze_prices scenario_page) = ''USD''"
  by (simp add: scenario_title scenario_categories scenario_language scenario_brands
      scenario_prices)

section \<open>Properties of the report writer and the programs\<close>

lemma names_differ: "csv_name ts \<noteq> json_name ts"
  by (simp add: csv_name_def json_name_def)

lemma save_results_empty:
  "save_results ts m [] fs =
     (fs(json_name ts \<mapsto> Json_summary
          \<lparr>marketplace_analysis = m,
           supplier_recommendations = [],
           summary_stats =
             \<lparr>total_suppliers = 0, avg_compatibility_score = Fin 0,
              top_categories = take 5 (categories m),
              data_source = ''all_japan_stores_unlimited.csv''\<rparr>\<rparr>),
      Inl (UnboundLocalError ''csv_filename''))"
  by (simp add: save_results_def)

lemma save_results_nonempty:
  "suppliers \<noteq> [] \<Longrightarrow>
     snd (save_results ts m suppliers fs) = Inr (csv_name ts, json_name ts)
     \<and> fst (save_results ts m suppliers fs) (csv_name ts) = Some (Csv_table suppliers)"
  by (simp add: save_results_def Let_def names_differ)

lemma pipeline_empty:
  assumes "database e = Some df" and "analyze_marketplace e u = Some m"
    and "generate_supplier_recommendations n m (Some df) = []"
  shows "pipeline e u n fs =
     ([], Raised (UnboundLocalError ''csv_filename''),
      fs(json_name (now_stamp e) \<mapsto> Json_summary
          \<lparr>marketplace_analysis = m,
           supplier_recommendations = [],
           summary_stats =
             \<lparr>total_suppliers = 0, avg_compatibility_score = Fin 0,
              top_categories = take 5 (categories m),
              data_source = ''all_japan_stores_unlimited.csv''\<rparr>\<rparr>))"
  using assms by (simp add: pipeline_def save_results_empty)

text \<open>
  C5, evaluated on an empty supplier list: no table is written and the summary is, with
  0 suppliers and mean score 0, but \<open>save_results\<close> then raises \<open>UnboundLocalError\<close>
  instead of returning the two file names.
\<close>

theorem save_results_empty_example:
  "snd (save_results ''20250101_000000'' example_analysis [] Map.empty)
     = Inl (UnboundLocalError ''csv_filename'')
   \<and> fst (save_results ''20250101_000000'' example_analysis [] Map.empty)
       (csv_name ''20250101_000000'') = None
   \<and> fst (save_results ''20250101_000000'' example_analysis [] Map.empty)
       (json_name ''20250101_000000'') =
       Some (Json_summary
         \<lparr>marketplace_analysis = example_analysis,
          supplier_recommendations = [],
          summary_stats =
            \<lparr>total_suppliers = 0, avg_compatibility_score = Fin 0,
             top_categories = [''electronics''],
             data_source = ''all_japan_stores_unlimited.csv''\<rparr>\<rparr>)"
  by (simp add: save_results_empty names_differ) (simp add: example_analysis_def)

text \<open>
  C10. Called with an empty supplier list, \<open>save_results\<close> writes the summary and then
  raises \<open>UnboundLocalError\<close> for \<open>csv_filename\<close>, which only the branch for a
  non-empty list assigns (with a non-empty list the two names are returned); a run
  whose ranking is empty therefore ends in that error.
\<close>

theorem save_results_empty_raises:
  "save_results ts m [] fs =
     (fs(json_name ts \<mapsto> Json_summary
          \<lparr>marketplace_analysis = m,
           supplier_recommendations = [],
           summary_stats =
             \<lparr>total_suppliers = 0, avg_compatibility_score = Fin 0,
              top_categories = take 5 (categories m),
              data_source = ''all_japan_stores_unlimited.csv''\<rparr>\<rparr>),
      Inl (UnboundLocalError ''csv_filename''))
   \<and> (suppliers \<noteq> [] \<longrightarrow>
        snd (save_results ts m suppliers fs) = Inr (csv_name ts, json_name ts))
   \<and> (database e = Some df \<and> analyze_marketplace e u = Some m
        \<and> generate_supplier_recommendations n m (Some df) = [] \<longrightarrow>
        fst (snd (pipeline e u n fs)) = Raised (UnboundLocalError ''csv_filename''))"
  using save_results_empty [of ts m fs] save_results_nonempty [of suppliers ts m fs]
    pipeline_empty [of e df u m n fs]
  by simp

theorem save_results_empty_raises_witness:
  "database example_env = Some []
   \<and> fst (snd (pipeline example_env ''https://shop.example.com'' 20 Map.empty))
       = Raised (UnboundLocalError ''csv_filename'')
   \<and> snd (save_results ''20250101_000000'' example_analysis
            [make_store_info 0 example_store 90] Map.empty)
       = Inr (csv_name ''20250101_000000'', json_name ''20250101_000000'')"
proof -
  obtain m where m: "analyze_marketplace example_env ''https://shop.example.com'' = Some m"
    by (simp add: analyze_marketplace_def example_env_def)
  have db: "database example_env = Some []" by (simp add: example_env_def)
  have gen: "generate_supplier_recommendations 20 m (Some []) = []"
    by (simp add: generate_supplier_recommendations_def)
  have run: "fst (snd (pipeline example_env ''https://shop.example.com'' 20 Map.empty))
       = Raised (UnboundLocalError ''csv_filename'')"
    using save_results_empty_raises [of "now_stamp example_env" m Map.empty "[]" example_env "[]"
        "''https://shop.example.com''" 20] db m gen
    by simp
  have ret: "snd (save_results ''20250101_000000'' example_analysis
            [make_store_info 0 example_store 90] Map.empty)
       = Inr (csv_name ''20250101_000000'', json_name ''20250101_000000'')"
    using save_results_empty_raises [of "''20250101_000000''" example_analysis Map.empty
        "[make_store_info 0 example_store 90]" example_env "[]" "''https://shop.example.com''" 20]
    by simp
  from db run ret show ?thesis by simp
qed

subsection \<open>The fallback program\<close>

lemma simple_csv:
  "http_get e u = Inr r \<Longrightarrow>
     fst (simple_analyze_marketplace e u fs) (csv_name (now_stamp e))
       = Some (Csv_sample sample_suppliers)
     \<and> snd (simple_analyze_marketplace e u fs)"
  by (simp add: simple_analyze_marketplace_def Let_def names_differ)





subsection \<open>Invocation without a URL\<close>

lemma main_no_url: "length argv < 2 \<Longrightarrow> main e argv fs = ([usage_line], Exited 1, fs)"
  by (simp add: main_def)

lemma main_default: "length argv = 2 \<Longrightarrow> main e argv fs = pipeline e (argv ! 1) 20 fs"
  by (simp add: main_def)

lemma simple_main_no_url:
  "length argv < 2 \<Longrightarrow>
     simple_main e argv fs =
       ([], Completed, fst (simple_analyze_marketplace e ''https://www.extra.com'' fs))"
  by (simp add: simple_main_def split: prod.splits)

text \<open>
  C9 as stated fails for the fallback program: started without a URL it prints no usage
  message, analyses the default URL and ends with exit status 0.
\<close>

theorem missing_url_counterexample:
  "fst (simple_main example_env [''simple_marketplace_analyzer.py''] Map.empty) = []
   \<and> fst (snd (simple_main example_env [''simple_marketplace_analyzer.py''] Map.empty)) = Completed
   \<and> exit_code (fst (snd (simple_main example_env [''simple_marketplace_analyzer.py''] Map.empty))) = 0
   \<and> snd (snd (simple_main example_env [''simple_marketplace_analyzer.py''] Map.empty))
       (csv_name ''20250101_000000'') = Some (Csv_sample sample_suppliers)"
proof -
  have h: "http_get example_env ''https://www.extra.com''
      = Inr \<lparr>status_code = 200, content = scenario_page\<rparr>"
    by (simp add: example_env_def)
  have s: "now_stamp example_env = ''20250101_000000''" by (simp add: example_env_def)
  have run: "simple_main example_env [''simple_marketplace_analyzer.py''] Map.empty =
      ([], Completed, fst (simple_analyze_marketplace example_env ''https://www.extra.com'' Map.empty))"
    by (rule simple_main_no_url) simp
  show ?thesis
    unfolding run using simple_csv [OF h, of Map.empty] unfolding s by simp
qed

text \<open>
  C9, as amended. The enhanced program, started without a URL, prints the usage message
  and exits with status 1, and with a URL alone it runs with \<open>max_suppliers = 20\<close>.
  The fallback program has no usage error: without a URL it analyses the default URL
  \<open>https://www.extra.com\<close> and ends normally.
\<close>

theorem missing_url_behaviour:
  "(length argv < 2 \<longrightarrow>
      main e argv fs = ([usage_line], Exited 1, fs) \<and> exit_code (Exited 1) \<noteq> 0)
   \<and> (length argv = 2 \<longrightarrow> main e argv fs = pipeline e (argv ! 1) 20 fs)
   \<and> (length argv < 2 \<longrightarrow>
      simple_main e argv fs =
        ([], Completed, fst (simple_analyze_marketplace e ''https://www.extra.com'' fs))
      \<and> exit_code Completed = 0)"
  using main_no_url [of argv e fs] main_default [of argv e fs] simple_main_no_url [of argv e fs]
  by simp

theorem missing_url_behaviour_witness:
  "length [''github_actions_enhanced_analyzer.py''] < 2
   \<and> main example_env [''github_actions_enhanced_analyzer.py''] Map.empty
       = ([usage_line], Exited 1, Map.empty)
   \<and> length [''github_actions_enhanced_analyzer.py'', ''https://shop.example.com''] = 2
   \<and> main example_env [''github_actions_enhanced_analyzer.py'', ''https://shop.example.com'']
         Map.empty
       = pipeline example_env ''https://shop.example.com'' 20 Map.empty
   \<and> simple_main example_env [''github_actions_enhanced_analyzer.py''] Map.empty
       = ([], Completed,
          fst (simple_analyze_marketplace example_env ''https://www.extra.com'' Map.empty))"
  using missing_url_behaviour [of "[''github_actions_enhanced_analyzer.py'']" example_env Map.empty]
    missing_url_behaviour [of "[''github_actions_enhanced_analyzer.py'', ''https://shop.example.com'']"
      example_env Map.empty]
  by simp

end
